theory Spec2Isabelle
  imports Complex_Main "HOL-Library.Sublist"
begin

section \<open>Strings\<close>

text \<open>
  A JavaScript string is a sequence of UTF-16 code units, here a list of numbers. The
  texts of the program are written as \<open>str\<close> of their characters.
\<close>

type_synonym jsstring = "nat list"

definition str :: "string \<Rightarrow> jsstring" where
  "str s = map of_char s"

text \<open>
  \<open>toUpperCase\<close> and \<open>toLowerCase\<close> replace each code unit by its Unicode upper or lower
  case, which may be several code units. The program only ever looks for the words
  \<open>RETRIEVE\<close> and \<open>yes\<close> in the result, or lower-cases its own texts. So the model
  maps as Unicode does every code unit that is an ASCII letter or whose image holds an ASCII
  code unit (the two tables below, beside the 26 letters), and leaves every other code unit
  as it is: its true image holds no ASCII code unit either.
\<close>

definition upperSpecial :: "(nat \<times> nat list) list" where
  "upperSpecial =
     [(0xDF, [0x53, 0x53]), (0x131, [0x49]), (0x149, [0x2BC, 0x4E]), (0x17F, [0x53]),
      (0x1F0, [0x4A, 0x30C]), (0x1E96, [0x48, 0x331]), (0x1E97, [0x54, 0x308]),
      (0x1E98, [0x57, 0x30A]), (0x1E99, [0x59, 0x30A]), (0x1E9A, [0x41, 0x2BE]),
      (0xFB00, [0x46, 0x46]), (0xFB01, [0x46, 0x49]), (0xFB02, [0x46, 0x4C]),
      (0xFB03, [0x46, 0x46, 0x49]), (0xFB04, [0x46, 0x46, 0x4C]),
      (0xFB05, [0x53, 0x54]), (0xFB06, [0x53, 0x54])]"

definition toUpperUnits :: "nat \<Rightarrow> nat list" where
  "toUpperUnits c =
     (if 97 \<le> c \<and> c \<le> 122 then [c - 32]
      else case map_of upperSpecial c of Some e \<Rightarrow> e | None \<Rightarrow> [c])"

definition lowerSpecial :: "(nat \<times> nat list) list" where
  "lowerSpecial = [(0x130, [0x69, 0x307]), (0x212A, [0x6B])]"

definition toLowerUnits :: "nat \<Rightarrow> nat list" where
  "toLowerUnits c =
     (if 65 \<le> c \<and> c \<le> 90 then [c + 32]
      else case map_of lowerSpecial c of Some e \<Rightarrow> e | None \<Rightarrow> [c])"

definition toUpperCase :: "jsstring \<Rightarrow> jsstring" where
  "toUpperCase s = concat (map toUpperUnits s)"

definition toLowerCase :: "jsstring \<Rightarrow> jsstring" where
  "toLowerCase s = concat (map toLowerUnits s)"

text \<open>The white space and line terminators that \<open>trim\<close> removes at both ends.\<close>

definition isWhiteSpace :: "nat \<Rightarrow> bool" where
  "isWhiteSpace c =
     ((9 \<le> c \<and> c \<le> 13) \<or> c = 0x20 \<or> c = 0xA0 \<or> c = 0x1680 \<or> (0x2000 \<le> c \<and> c \<le> 0x200A) \<or>
      c = 0x2028 \<or> c = 0x2029 \<or> c = 0x202F \<or> c = 0x205F \<or> c = 0x3000 \<or> c = 0xFEFF)"

definition trim :: "jsstring \<Rightarrow> jsstring" where
  "trim s = rev (dropWhile isWhiteSpace (rev (dropWhile isWhiteSpace s)))"

text \<open>\<open>s.includes(p)\<close>: \<open>p\<close> occurs in \<open>s\<close> as a run of consecutive code units.\<close>

fun includesStr :: "jsstring \<Rightarrow> jsstring \<Rightarrow> bool" where
  "includesStr [] p = (p = [])"
| "includesStr (c # cs) p = (prefix p (c # cs) \<or> includesStr cs p)"

text \<open>\<open>s.substring(0, n)\<close> for \<open>n\<close> a non-negative constant.\<close>

definition substring0 :: "jsstring \<Rightarrow> nat \<Rightarrow> jsstring" where
  "substring0 s n = take n s"

text \<open>\<open>xs.join(sep)\<close> on an array of strings.\<close>

fun join :: "jsstring list \<Rightarrow> jsstring \<Rightarrow> jsstring" where
  "join [] sep = []"
| "join [x] sep = x"
| "join (x # y # ys) sep = x @ sep @ join (y # ys) sep"

text \<open>The decimal rendering of a non-negative integer, as a template literal gives it.\<close>

definition digit :: "nat \<Rightarrow> nat" where
  "digit d = 48 + d"

fun showNat :: "nat \<Rightarrow> jsstring" where
  "showNat n = (if n < 10 then [digit n] else showNat (n div 10) @ [digit (n mod 10)])"

text \<open>
  The specification's reading of "matched case-insensitively for the substring": some run of
  consecutive code units of the text equals the word up to the case of the letters A to Z.
\<close>

definition foldCase :: "nat \<Rightarrow> nat" where
  "foldCase c = (if 65 \<le> c \<and> c \<le> 90 then c + 32 else c)"

definition sameLetter :: "nat \<Rightarrow> nat \<Rightarrow> bool" where
  "sameLetter a b = (foldCase a = foldCase b)"

fun containsIgnoringCase :: "jsstring \<Rightarrow> jsstring \<Rightarrow> bool" where
  "containsIgnoringCase [] w = (w = [])"
| "containsIgnoringCase (c # cs) w =
     ((length w \<le> length (c # cs) \<and> list_all2 sameLetter (take (length w) (c # cs)) w)
      \<or> containsIgnoringCase cs w)"

text \<open>Reading a dotless i (U+0131) as the letter i.\<close>

definition dotlessToI :: "nat \<Rightarrow> nat" where
  "dotlessToI c = (if c = 0x131 then 0x69 else c)"

section \<open>Data model\<close>

datatype js_error = Error jsstring

fun message :: "js_error \<Rightarrow> jsstring" where
  "message (Error m) = m"

record chat_message =
  role :: jsstring
  content :: jsstring

record completion_options =
  temperature :: "real option"
  maxTokens :: "nat option"

record search_options =
  top_opt :: "nat option"
  queryType :: "jsstring option"

text \<open>
  A hit's document is opaque to the workflow but for its \<open>content\<close> field, which may be
  missing; \<open>doc_json\<close> is the text \<open>JSON.stringify\<close> renders the document to.
\<close>

record search_document =
  doc_content :: "jsstring option"
  doc_json :: jsstring

record search_hit =
  document :: search_document
  hit_score :: real

record search_response =
  results :: "search_hit list"
  count :: "nat option"

record search_client_options =
  sc_top :: nat
  sc_queryType :: jsstring
  semanticConfiguration :: "jsstring option"

record chat_request =
  model :: jsstring
  req_messages :: "chat_message list"
  req_temperature :: real
  max_tokens :: nat
  stream :: bool

datatype lc_message = HumanMessage jsstring | AIMessage jsstring

fun lc_content :: "lc_message \<Rightarrow> jsstring" where
  "lc_content (HumanMessage c) = c"
| "lc_content (AIMessage c) = c"

text \<open>
  Everything a run does to the outside is an event of a trace, oldest first: a reading of
  the clock, an identifier drawn, a call of one of the two services, a call of the prebuilt
  tool loop. The outside answers as a function of the trace so far, so that two calls with
  the same arguments may be answered differently. Console logging is left out, and with it
  the clock readings made only to print them.
\<close>

datatype event =
    ClockRead
  | UuidDraw
  | CompletionCall "chat_message list" completion_options
  | SearchCall jsstring search_options
  | ReactInvoke "chat_message list"

type_synonym world = "event list"

record environment =
  initialized :: bool
  deployment :: jsstring
  chatCompletionsCreate :: "world \<Rightarrow> chat_request \<Rightarrow> js_error + jsstring option"
  searchClientSearch :: "world \<Rightarrow> jsstring \<Rightarrow> search_client_options \<Rightarrow> js_error + search_response"
  reactAgentInvoke :: "world \<Rightarrow> chat_message list \<Rightarrow> js_error + lc_message list"
  uuidv4 :: "world \<Rightarrow> jsstring"
  dateNow :: "world \<Rightarrow> int"
  numberToString :: "real \<Rightarrow> jsstring"

section \<open>Service layer\<close>

definition orElse :: "jsstring option \<Rightarrow> jsstring \<Rightarrow> jsstring" where
  "orElse v d = (case v of None \<Rightarrow> d | Some t \<Rightarrow> if t = [] then d else t)"

definition generateCompletion ::
  "environment \<Rightarrow> chat_message list \<Rightarrow> completion_options \<Rightarrow> world \<Rightarrow> (js_error + jsstring) \<times> world"
where
  "generateCompletion env msgs opts w =
     (let w1 = w @ [CompletionCall msgs opts] in
      if \<not> initialized env then (Inl (Error (str ''Services not initialized'')), w1)
      else
        (let request = \<lparr> model = deployment env, req_messages = msgs,
                          req_temperature = (case temperature opts of None \<Rightarrow> 0.7 | Some t \<Rightarrow> t),
                          max_tokens = (case maxTokens opts of None \<Rightarrow> 2000 | Some n \<Rightarrow> n),
                          stream = False \<rparr>
         in case chatCompletionsCreate env w1 request of
              Inl e \<Rightarrow> (Inl (Error (str ''Completion generation failed: '' @ message e)), w1)
            | Inr c \<Rightarrow> (Inr (orElse c (str ''No response generated'')), w1)))"

text \<open>
  \<open>searchDocuments\<close> collects the hits of the client's reply and hands them on with their
  count; the facets it also hands on are not modelled.
\<close>

definition searchDocuments ::
  "environment \<Rightarrow> jsstring \<Rightarrow> search_options \<Rightarrow> world \<Rightarrow> (js_error + search_response) \<times> world"
where
  "searchDocuments env q opts w =
     (let w1 = w @ [SearchCall q opts] in
      if \<not> initialized env then (Inl (Error (str ''Services not initialized'')), w1)
      else
        (let top' = (case top_opt opts of None \<Rightarrow> 5 | Some n \<Rightarrow> n);
             queryType' = (case queryType opts of None \<Rightarrow> str ''semantic'' | Some t \<Rightarrow> t);
             searchOptions = \<lparr> sc_top = top', sc_queryType = queryType',
                                semanticConfiguration =
                                  (if queryType' = str ''semantic'' then Some (str ''default'') else None) \<rparr>
         in case searchClientSearch env w1 q searchOptions of
              Inl e \<Rightarrow> (Inl (Error (str ''Document search failed: '' @ message e)), w1)
            | Inr r \<Rightarrow>
                (Inr \<lparr> results = results r,
                       count = Some (case count r of None \<Rightarrow> length (results r)
                                     | Some c \<Rightarrow> if c = 0 then length (results r) else c) \<rparr>, w1)))"

section \<open>Workflow state\<close>

datatype js_value = JNull | JBool bool | JNumber int | JString jsstring

record exec_step =
  step :: jsstring
  timestamp :: int
  details :: "(jsstring \<times> js_value) list"

record retrieved_doc =
  rd_content :: jsstring
  rd_score :: real
  rd_metadata :: search_document

text \<open>
  \<open>AgenticRAGState\<close>. The tri-state fields \<open>needsRAG\<close> and \<open>ragAccepted\<close> hold
  \<open>null\<close> (here \<open>None\<close>) until a stage writes them. Timestamps are kept as the clock
  reading they render.
\<close>

record rag_state =
  messages :: "lc_message list"
  sessionId :: jsstring
  userQuery :: jsstring
  needsRAG :: "bool option"
  searchQuery :: jsstring
  retrievedDocs :: "retrieved_doc list"
  ragAccepted :: "bool option"
  rejectionReason :: jsstring
  finalAnswer :: jsstring
  executionSteps :: "exec_step list"
  retryCount :: int
  maxRetries :: int

text \<open>
  A stage returns an object holding some of the fields; each is merged into the state by
  the reducer of its annotation: \<open>messages\<close> and \<open>executionSteps\<close> are appended, every other
  field is replaced.
\<close>

datatype state_write =
    Messages "lc_message list"
  | NeedsRAG bool
  | SearchQuery jsstring
  | RetrievedDocs "retrieved_doc list"
  | RagAccepted bool
  | RejectionReason jsstring
  | FinalAnswer jsstring
  | ExecutionSteps "exec_step list"

fun reducer :: "rag_state \<Rightarrow> state_write \<Rightarrow> rag_state" where
  "reducer x (Messages y) = x\<lparr>messages := messages x @ y\<rparr>"
| "reducer x (NeedsRAG y) = x\<lparr>needsRAG := Some y\<rparr>"
| "reducer x (SearchQuery y) = x\<lparr>searchQuery := y\<rparr>"
| "reducer x (RetrievedDocs y) = x\<lparr>retrievedDocs := y\<rparr>"
| "reducer x (RagAccepted y) = x\<lparr>ragAccepted := Some y\<rparr>"
| "reducer x (RejectionReason y) = x\<lparr>rejectionReason := y\<rparr>"
| "reducer x (FinalAnswer y) = x\<lparr>finalAnswer := y\<rparr>"
| "reducer x (ExecutionSteps y) = x\<lparr>executionSteps := executionSteps x @ y\<rparr>"

definition applyWrites :: "rag_state \<Rightarrow> state_write list \<Rightarrow> rag_state" where
  "applyWrites x ys = foldl reducer x ys"

section \<open>Prompts\<close>

definition nl :: jsstring where
  "nl = str ''\<newline>''"

definition userMessage :: "jsstring \<Rightarrow> chat_message" where
  "userMessage c = \<lparr> role = str ''user'', content = c \<rparr>"

definition analysisText1 :: jsstring where
  \<open>analysisText1 =
     str (''You are an AI assistant that determines whether a user query could benefit from external document retrieval.\<newline>''
          @ ''\<newline>User Query: "'')\<close>

definition analysisText2 :: jsstring where
  \<open>analysisText2 =
     str (''"\<newline>''
          @ ''\<newline>Always respond "RETRIEVE" if the query could potentially benefit from:\<newline>''
          @ ''- Company-specific information (brand guidelines, style guides, internal docs)\<newline>''
          @ ''- Recent reports, studies, or research findings\<newline>''
          @ ''- Proprietary knowledge or internal processes\<newline>''
          @ ''- Specific technical documentation\<newline>''
          @ ''- Current industry trends or data\<newline>''
          @ ''\<newline>For creative/strategic work mentioning specific companies (like Adobe, Google, etc.), always try RETRIEVE first to check for relevant brand guidelines or company-specific information.\<newline>''
          @ ''\<newline>The query asks for: "'')\<close>

definition analysisText3 :: jsstring where
  \<open>analysisText3 =
     str (''"\<newline>''
          @ ''\<newline>Respond with only one word: RETRIEVE or GENERATE'')\<close>

definition analysisPrompt :: "rag_state \<Rightarrow> jsstring" where
  "analysisPrompt state =
     analysisText1 @ userQuery state @ analysisText2 @ userQuery state @ analysisText3"

definition gradeText1 :: jsstring where
  \<open>gradeText1 =
     str (''You are a grader assessing whether retrieved documents contain specific company/brand information that would improve the response.\<newline>''
          @ ''\<newline>User Question: "'')\<close>

definition gradeText2 :: jsstring where
  \<open>gradeText2 =
     str (''"\<newline>''
          @ ''\<newline>Retrieved Documents:\<newline>'')\<close>

definition gradeText3 :: jsstring where
  \<open>gradeText3 =
     str (''\<newline>\<newline>Look specifically for:\<newline>''
          @ ''- Brand guidelines, style guides, or design standards for '')\<close>

definition gradeText4 :: jsstring where
  \<open>gradeText4 =
     str (''\<newline>- Company-specific design principles or requirements\<newline>''
          @ ''- Official documentation or internal processes  \<newline>''
          @ ''- Proprietary knowledge that goes beyond general industry knowledge\<newline>''
          @ ''\<newline>Only respond 'yes' if documents contain specific brand/company information. \<newline>''
          @ ''Respond 'no' if documents are:\<newline>''
          @ ''- Generic industry advice or best practices\<newline>''
          @ ''- Unrelated to the specific company mentioned\<newline>''
          @ ''- General design principles without company specifics\<newline>''
          @ ''\<newline>Respond with only: yes or no'')\<close>

definition gradeDocument :: "environment \<Rightarrow> nat \<times> retrieved_doc \<Rightarrow> jsstring" where
  "gradeDocument env = (\<lambda>(i, doc).
     (str ''\<newline>Document '') @ showNat (i + 1) @ str '':\<newline>''
     @ substring0 (rd_content doc) 500 @ str ''...\<newline>Score: ''
     @ numberToString env (rd_score doc) @ str ''\<newline>'')"

definition gradePrompt :: "environment \<Rightarrow> rag_state \<Rightarrow> jsstring" where
  "gradePrompt env state =
     gradeText1 @ userQuery state @ gradeText2
     @ join (map (gradeDocument env) (enumerate 0 (retrievedDocs state))) nl
     @ gradeText3
     @ (if includesStr (userQuery state) (str ''Adobe'') then str ''Adobe'' else str ''the mentioned company'')
     @ gradeText4"

definition ragText1 :: jsstring where
  \<open>ragText1 =
     str (''You are an assistant for question-answering tasks. Use the following pieces of retrieved context to answer the question. If you don't know the answer, just say that you don't know. Be comprehensive and detailed in your response.\<newline>''
          @ ''\<newline>Question: '')\<close>

definition sourceDocument :: "nat \<times> retrieved_doc \<Rightarrow> jsstring" where
  "sourceDocument = (\<lambda>(i, doc).
     (str ''\<newline>Source '') @ showNat (i + 1) @ str '':\<newline>'' @ rd_content doc @ str ''\<newline>'')"

definition ragPrompt :: "rag_state \<Rightarrow> jsstring" where
  "ragPrompt state =
     ragText1 @ userQuery state @ str ''\<newline>\<newline>Context:\<newline>''
     @ join (map sourceDocument (enumerate 0 (retrievedDocs state))) nl
     @ str ''\<newline>\<newline>Answer:''"

definition generalText1 :: jsstring where
  \<open>generalText1 =
     str (''You are a helpful AI assistant. Answer the following question using your general knowledge. Be comprehensive and acknowledge any limitations in your response.\<newline>''
          @ ''\<newline>Question: '')\<close>

definition rejectionNote :: "rag_state \<Rightarrow> jsstring" where
  "rejectionNote state =
     (if rejectionReason state \<noteq> []
      then str ''Note: External documents were retrieved but '' @ toLowerCase (rejectionReason state)
           @ str ''. Proceeding with general knowledge.''
      else [])"

definition generalPrompt :: "rag_state \<Rightarrow> jsstring" where
  "generalPrompt state =
     generalText1 @ userQuery state @ str ''\<newline>\<newline>'' @ rejectionNote state @ str ''\<newline>\<newline>Answer:''"

definition generationPrompt :: "rag_state \<Rightarrow> jsstring" where
  "generationPrompt state =
     (if ragAccepted state = Some True \<and> length (retrievedDocs state) > 0
      then ragPrompt state else generalPrompt state)"

section \<open>Stages of the workflow\<close>

definition addStep ::
  "environment \<Rightarrow> jsstring \<Rightarrow> (jsstring \<times> js_value) list \<Rightarrow> world \<Rightarrow> exec_step list \<times> world"
where
  "addStep env name det w =
     ([\<lparr> step = name, timestamp = dateNow env w, details = det \<rparr>], w @ [ClockRead])"

definition agentNode :: "environment \<Rightarrow> rag_state \<Rightarrow> world \<Rightarrow> state_write list \<times> world" where
  "agentNode env state w =
     (case addStep env (str ''agent_analysis'') [(str ''userQuery'', JString (userQuery state))] w of
        (steps, w1) \<Rightarrow>
          (case generateCompletion env [userMessage (analysisPrompt state)]
                  \<lparr> temperature = Some 0.1, maxTokens = Some 10 \<rparr> w1 of
             (Inr decision, w2) \<Rightarrow>
               (let needsRetrieval = includesStr (toUpperCase (trim decision)) (str ''RETRIEVE'')
                in ([NeedsRAG needsRetrieval,
                     SearchQuery (if needsRetrieval then userQuery state else []),
                     ExecutionSteps steps,
                     Messages [HumanMessage (userQuery state)]], w2))
           | (Inl error, w2) \<Rightarrow>
               ([NeedsRAG False,
                 ExecutionSteps steps,
                 Messages [HumanMessage (userQuery state)]], w2)))"

definition toRetrievedDoc :: "search_hit \<Rightarrow> retrieved_doc" where
  "toRetrievedDoc result =
     \<lparr> rd_content = orElse (doc_content (document result)) (doc_json (document result)),
       rd_score = hit_score result,
       rd_metadata = document result \<rparr>"

definition retrieveNode :: "environment \<Rightarrow> rag_state \<Rightarrow> world \<Rightarrow> state_write list \<times> world" where
  "retrieveNode env state w =
     (case addStep env (str ''retrieval'')
             [(str ''searchQuery'', JString (searchQuery state)),
              (str ''retryCount'', JNumber (retryCount state))] w of
        (steps, w1) \<Rightarrow>
          (case searchDocuments env (searchQuery state)
                  \<lparr> top_opt = Some 5, queryType = Some (str ''semantic'') \<rparr> w1 of
             (Inr searchResults, w2) \<Rightarrow>
               ([RetrievedDocs (map toRetrievedDoc (results searchResults)),
                 ExecutionSteps steps], w2)
           | (Inl error, w2) \<Rightarrow>
               ([RetrievedDocs [],
                 ExecutionSteps steps], w2)))"

definition gradeDocumentsNode ::
  "environment \<Rightarrow> rag_state \<Rightarrow> world \<Rightarrow> state_write list \<times> world"
where
  "gradeDocumentsNode env state w =
     (case addStep env (str ''grade_documents'')
             [(str ''docCount'', JNumber (int (length (retrievedDocs state))))] w of
        (steps, w1) \<Rightarrow>
          if length (retrievedDocs state) = 0
          then ([RagAccepted False,
                 RejectionReason (str ''No documents retrieved''),
                 ExecutionSteps steps], w1)
          else
            (case generateCompletion env [userMessage (gradePrompt env state)]
                    \<lparr> temperature = Some 0.1, maxTokens = Some 5 \<rparr> w1 of
               (Inr gradeResult, w2) \<Rightarrow>
                 (let isRelevant = includesStr (toLowerCase (trim gradeResult)) (str ''yes'')
                  in ([RagAccepted isRelevant,
                       RejectionReason (if isRelevant then [] else str ''Documents not relevant to query''),
                       ExecutionSteps steps], w2))
             | (Inl error, w2) \<Rightarrow>
                 ([RagAccepted False,
                   RejectionReason (str ''Error evaluating document relevance''),
                   ExecutionSteps steps], w2)))"

definition jsTriState :: "bool option \<Rightarrow> js_value" where
  "jsTriState b = (case b of None \<Rightarrow> JNull | Some v \<Rightarrow> JBool v)"

definition fallbackAnswer :: jsstring where
  "fallbackAnswer = str ''I apologize, but I encountered an error while generating the response.''"

definition generateNode :: "environment \<Rightarrow> rag_state \<Rightarrow> world \<Rightarrow> state_write list \<times> world" where
  "generateNode env state w =
     (case addStep env (str ''generate'')
             [(str ''ragAccepted'', jsTriState (ragAccepted state)),
              (str ''docCount'', JNumber (int (length (retrievedDocs state))))] w of
        (steps, w1) \<Rightarrow>
          (case generateCompletion env [userMessage (generationPrompt state)]
                  \<lparr> temperature = Some 0.7, maxTokens = Some 2000 \<rparr> w1 of
             (Inr answer, w2) \<Rightarrow>
               ([FinalAnswer answer,
                 ExecutionSteps steps,
                 Messages (messages state @ [AIMessage answer])], w2)
           | (Inl error, w2) \<Rightarrow>
               ([FinalAnswer fallbackAnswer,
                 ExecutionSteps steps,
                 Messages (messages state @ [AIMessage (str ''Error generating response'')])], w2)))"

subsection \<open>Conditional edges\<close>

definition decideToRetrieve :: "rag_state \<Rightarrow> jsstring" where
  "decideToRetrieve state = (if needsRAG state = Some True then str ''retrieve'' else str ''generate'')"

definition gradeDocuments :: "rag_state \<Rightarrow> jsstring" where
  "gradeDocuments state =
     (if length (retrievedDocs state) = 0 then str ''no_docs''
      else if ragAccepted state = Some True then str ''relevant''
      else str ''no_docs'')"

section \<open>The graph and its execution\<close>

datatype node = Agent | Retrieve | GradeDocuments | Generate

datatype target = Node node | END

fun runNode :: "environment \<Rightarrow> node \<Rightarrow> rag_state \<Rightarrow> world \<Rightarrow> state_write list \<times> world" where
  "runNode env Agent = agentNode env"
| "runNode env Retrieve = retrieveNode env"
| "runNode env GradeDocuments = gradeDocumentsNode env"
| "runNode env Generate = generateNode env"

text \<open>
  The edges as \<open>_createWorkflowAgent\<close> adds them. A conditional edge looks the name its
  function returns up in the edge's table; a name the table lacks has no target.
\<close>

fun edges :: "node \<Rightarrow> rag_state \<Rightarrow> target option" where
  "edges Agent state =
     map_option Node
       (map_of [(str ''retrieve'', Retrieve), (str ''generate'', Generate)] (decideToRetrieve state))"
| "edges Retrieve state = Some (Node GradeDocuments)"
| "edges GradeDocuments state =
     map_option Node
       (map_of [(str ''relevant'', Generate), (str ''not_relevant'', Generate), (str ''no_docs'', Generate)]
          (gradeDocuments state))"
| "edges Generate state = Some END"

text \<open>
  The limit \<open>_createWorkflowAgent\<close> hands to \<open>compile\<close>. It is not among the options
  \<open>compile\<close> reads, and \<open>execute\<close> calls \<open>invoke\<close> without a configuration, so the limit in
  force is the graph library's default.
\<close>

definition recursionLimit :: nat where
  "recursionLimit = 10"

definition defaultRecursionLimit :: nat where
  "defaultRecursionLimit = 25"

text \<open>
  One step of the compiled graph: the node runs and its writes are merged into the state.
\<close>

definition stepNode ::
  "environment \<Rightarrow> node \<Rightarrow> rag_state \<Rightarrow> world \<Rightarrow> rag_state \<times> world"
where
  "stepNode env n state w =
     (case runNode env n state w of (writes, w') \<Rightarrow> (applyWrites state writes, w'))"

text \<open>
  Running the compiled graph towards a target. Every tick of the engine uses one unit of
  the limit, and the engine looks at the limit before it looks for what to run: with none
  left the run is refused with a recursion error, also when nothing is left to run. So a
  run of \<open>n\<close> nodes needs a limit of \<open>n + 1\<close>.
\<close>

fun invokeFrom ::
  "environment \<Rightarrow> nat \<Rightarrow> target \<Rightarrow> rag_state \<Rightarrow> world \<Rightarrow> (js_error + rag_state) \<times> world"
where
  "invokeFrom env 0 t state w = (Inl (Error (str ''Recursion limit reached'')), w)"
| "invokeFrom env (Suc k) END state w = (Inr state, w)"
| "invokeFrom env (Suc k) (Node n) state w =
     (case stepNode env n state w of
        (state', w') \<Rightarrow>
          (case edges n state' of
             None \<Rightarrow> (Inl (Error (str ''Branch has no target'')), w')
           | Some t \<Rightarrow> invokeFrom env k t state' w'))"

definition invoke :: "environment \<Rightarrow> rag_state \<Rightarrow> world \<Rightarrow> (js_error + rag_state) \<times> world" where
  "invoke env input w = invokeFrom env defaultRecursionLimit (Node Agent) input w"

section \<open>The entry point\<close>

datatype agent_type = WORKFLOW | REACT

fun agentTypeName :: "agent_type \<Rightarrow> jsstring" where
  "agentTypeName WORKFLOW = str ''workflow''"
| "agentTypeName REACT = str ''react''"

record execute_options =
  opt_maxRetries :: "int option"

record decision_points =
  dp_needsRAG :: "bool option"
  dp_ragAccepted :: "bool option"
  dp_retryCount :: int

datatype documents_found = DocumentCount nat | DocumentText jsstring

record top_document =
  td_score :: real

record retrieval_details =
  rt_searchQuery :: jsstring
  documentsFound :: documents_found
  topDocuments :: "top_document list"

record explainability_payload =
  ex_executionSteps :: "exec_step list"
  decisionPoints :: decision_points
  retrievalDetails :: "retrieval_details option"
  ex_rejectionReason :: "jsstring option"

record result_metadata =
  executionTimeMs :: int
  md_timestamp :: int
  workflowVersion :: jsstring
  agentType :: jsstring

record execution_result =
  res_sessionId :: jsstring
  query :: jsstring
  answer :: jsstring
  explainability :: explainability_payload
  metadata :: result_metadata

definition executionFailed :: "js_error \<Rightarrow> js_error" where
  "executionFailed error = Error (str ''Agent execution failed: '' @ message error)"

definition toolArguments :: "jsstring \<Rightarrow> jsstring" where
  \<open>toolArguments userQuery' = str ''{"input":"'' @ userQuery' @ str ''"}''\<close>

text \<open>
  The state \<open>execute\<close> starts the graph from. It gives every field, so the defaults of the
  annotation (among them a second identifier) never show.
\<close>

definition initialState :: "environment \<Rightarrow> jsstring \<Rightarrow> execute_options \<Rightarrow> world \<Rightarrow> rag_state" where
  "initialState env userQuery' options w =
     \<lparr> messages = [], sessionId = uuidv4 env w, userQuery = userQuery',
       needsRAG = None, searchQuery = [], retrievedDocs = [], ragAccepted = None,
       rejectionReason = [], finalAnswer = [], executionSteps = [], retryCount = 0,
       maxRetries = (case opt_maxRetries options of Some m \<Rightarrow> m | None \<Rightarrow> - 1) \<rparr>"

definition executeWorkflow ::
  "environment \<Rightarrow> jsstring \<Rightarrow> execute_options \<Rightarrow> int \<Rightarrow> world \<Rightarrow> (js_error + execution_result) \<times> world"
where
  "executeWorkflow env userQuery' options startTime w =
     (case invoke env (initialState env userQuery' options w) (w @ [UuidDraw]) of
        (Inl error, w') \<Rightarrow> (Inl (executionFailed error), w')
      | (Inr result, w') \<Rightarrow>
             (Inr \<lparr> res_sessionId = sessionId result,
                    query = userQuery',
                    answer = finalAnswer result,
                    explainability =
                      \<lparr> ex_executionSteps = executionSteps result,
                        decisionPoints =
                          \<lparr> dp_needsRAG = needsRAG result,
                            dp_ragAccepted = ragAccepted result,
                            dp_retryCount = retryCount result \<rparr>,
                        retrievalDetails =
                          (if needsRAG result = Some True
                           then Some \<lparr> rt_searchQuery = searchQuery result,
                                       documentsFound = DocumentCount (length (retrievedDocs result)),
                                       topDocuments =
                                         map (\<lambda>doc. \<lparr> td_score = rd_score doc \<rparr>)
                                           (take 3 (retrievedDocs result)) \<rparr>
                           else None),
                        ex_rejectionReason = Some (rejectionReason result) \<rparr>,
                    metadata =
                      \<lparr> executionTimeMs = dateNow env w' - startTime,
                        md_timestamp = dateNow env (w' @ [ClockRead]),
                        workflowVersion = str ''1.0.0'',
                        agentType = agentTypeName WORKFLOW \<rparr> \<rparr>,
              w' @ [ClockRead, ClockRead]))"

text \<open>
  The tool loop itself is the prebuilt agent of the graph library; the entry point sees
  only the messages it returns, or its failure. Reading the content of the last of no
  messages raises, which the entry point reports like any other failure.
\<close>

definition executeReact ::
  "environment \<Rightarrow> jsstring \<Rightarrow> int \<Rightarrow> world \<Rightarrow> (js_error + execution_result) \<times> world"
where
  "executeReact env userQuery' startTime w =
     (let messages' = [userMessage userQuery']; w1 = w @ [ReactInvoke messages'] in
      case reactAgentInvoke env w1 messages' of
        Inl error \<Rightarrow> (Inl (executionFailed error), w1)
      | Inr responseMessages \<Rightarrow>
          if responseMessages = []
          then (Inl (executionFailed
                       (Error (str ''Cannot read properties of undefined (reading 'content')''))), w1)
          else
            (let answer' = lc_content (last responseMessages);
                 w3 = w1 @ [UuidDraw]
             in (Inr \<lparr> res_sessionId = uuidv4 env w1,
                       query = userQuery',
                       answer = answer',
                       explainability =
                         \<lparr> ex_executionSteps =
                             [\<lparr> step = str ''tool_search_documents'',
                                timestamp = dateNow env w3,
                                details = [(str ''toolName'', JString (str ''search_documents'')),
                                           (str ''arguments'', JString (toolArguments userQuery'))] \<rparr>,
                              \<lparr> step = str ''tool_evaluate_documents'',
                                timestamp = dateNow env (w3 @ [ClockRead]),
                                details = [(str ''toolName'', JString (str ''evaluate_documents'')),
                                           (str ''arguments'', JString (toolArguments userQuery'))] \<rparr>,
                              \<lparr> step = str ''generate'',
                                timestamp = dateNow env (w3 @ [ClockRead, ClockRead]),
                                details = [(str ''agentType'', JString (str ''createReactAgent''))] \<rparr>],
                           decisionPoints =
                             \<lparr> dp_needsRAG = Some True,
                               dp_ragAccepted = Some True,
                               dp_retryCount = 0 \<rparr>,
                           retrievalDetails =
                             Some \<lparr> rt_searchQuery = toolArguments userQuery',
                                    documentsFound = DocumentText (str ''Variable''),
                                    topDocuments = [] \<rparr>,
                           ex_rejectionReason = None \<rparr>,
                       metadata =
                         \<lparr> executionTimeMs =
                             dateNow env (w3 @ [ClockRead, ClockRead, ClockRead]) - startTime,
                           md_timestamp =
                             dateNow env (w3 @ [ClockRead, ClockRead, ClockRead, ClockRead]),
                           workflowVersion = str ''React-1.0.0'',
                           agentType = str ''createReactAgent'' \<rparr> \<rparr>,
                 w3 @ [ClockRead, ClockRead, ClockRead, ClockRead, ClockRead])))"

definition execute ::
  "environment \<Rightarrow> agent_type \<Rightarrow> jsstring \<Rightarrow> execute_options \<Rightarrow> world
     \<Rightarrow> (js_error + execution_result) \<times> world"
where
  "execute env type userQuery' options w =
     (let startTime = dateNow env w; w0 = w @ [ClockRead] in
      case type of
        WORKFLOW \<Rightarrow> executeWorkflow env userQuery' options startTime w0
      | REACT \<Rightarrow> executeReact env userQuery' startTime w0)"

section \<open>Reading a run\<close>

text \<open>
  The events a run of the graph adds to the trace, read off the state it ends in. Used to
  state what was and was not called.
\<close>

definition runTrace :: "environment \<Rightarrow> rag_state \<Rightarrow> event list" where
  "runTrace env s =
     [ClockRead,
      CompletionCall [userMessage (analysisPrompt s)]
        \<lparr> temperature = Some 0.1, maxTokens = Some 10 \<rparr>]
     @ (if needsRAG s = Some True
        then [ClockRead,
              SearchCall (searchQuery s) \<lparr> top_opt = Some 5, queryType = Some (str ''semantic'') \<rparr>,
              ClockRead]
             @ (if retrievedDocs s = [] then []
                else [CompletionCall [userMessage (gradePrompt env s)]
                        \<lparr> temperature = Some 0.1, maxTokens = Some 5 \<rparr>])
        else [])
     @ [ClockRead,
        CompletionCall [userMessage (generationPrompt s)]
          \<lparr> temperature = Some 0.7, maxTokens = Some 2000 \<rparr>]"

section \<open>Test doubles\<close>

text \<open>
  An environment whose completion client answers by stage (the three stages ask for 10, 5
  and 2000 tokens), whose search client always gives the same reply, whose identifiers
  grow with the trace and whose clock counts events.
\<close>

definition mockEnvironment ::
  "js_error + jsstring option \<Rightarrow> js_error + jsstring option \<Rightarrow> js_error + jsstring option
     \<Rightarrow> js_error + search_response \<Rightarrow> environment"
where
  "mockEnvironment analysis grading generation search =
     \<lparr> initialized = True,
       deployment = str ''gpt-4-1106-preview'',
       chatCompletionsCreate =
         (\<lambda>w request. if max_tokens request = 10 then analysis
                      else if max_tokens request = 5 then grading
                      else generation),
       searchClientSearch = (\<lambda>w q options. search),
       reactAgentInvoke = (\<lambda>w msgs. Inr [AIMessage (str ''done'')]),
       uuidv4 = (\<lambda>w. replicate (length w) 117),
       dateNow = (\<lambda>w. int (length w)),
       numberToString = (\<lambda>x. (str ''0.9'')) \<rparr>"

definition mockHit :: search_hit where
  "mockHit = \<lparr> document = \<lparr> doc_content = Some (str ''Adobe brand guide''), doc_json = str ''{}'' \<rparr>,
               hit_score = 0.9 \<rparr>"

definition noOptions :: execute_options where
  "noOptions = \<lparr> opt_maxRetries = None \<rparr>"

text \<open>A reply that spells the word with a dotless i (U+0131).\<close>

definition dotlessReply :: jsstring where
  "dotlessReply = str ''retr'' @ [0x131] @ str ''eve''"



section \<open>Strings: matching a word in a reply\<close>

lemma str_eq_iff [simp]: "str a = str b \<longleftrightarrow> a = b"
  unfolding str_def by (rule inj_map_eq_map) (simp add: inj_def)

lemma str_Nil [simp]: "str [] = []"
  by (simp add: str_def)

lemma str_eq_Nil [simp]: "str a = [] \<longleftrightarrow> a = []" "[] = str a \<longleftrightarrow> a = []"
  by (auto simp: str_def)


lemma includesStr_sublist: "includesStr s p = sublist p s"
  by (induction s) (simp_all add: sublist_Cons_right)

lemma prefix_take: "prefix p s \<longleftrightarrow> length p \<le> length s \<and> take (length p) s = p"
  by (metis prefix_length_le take_is_prefix append_eq_conv_conj prefix_def)

lemma sublist_dropWhile:
  assumes "p \<noteq> []" "\<not> P (hd p)"
  shows "sublist p (dropWhile P s) = sublist p s"
proof (induction s)
  case Nil
  show ?case by simp
next
  case (Cons c cs)
  show ?case
  proof (cases "P c")
    case True
    with assms have "\<not> prefix p (c # cs)" by (cases p) auto
    with True Cons show ?thesis by (simp add: sublist_Cons_right)
  next
    case False
    then show ?thesis by simp
  qed
qed

lemma sublist_trim:
  assumes "p \<noteq> []" "\<not> isWhiteSpace (hd p)" "\<not> isWhiteSpace (last p)"
  shows "sublist p (trim s) = sublist p s"
proof -
  have "sublist p (trim s) = sublist (rev p) (dropWhile isWhiteSpace (rev (dropWhile isWhiteSpace s)))"
    by (simp add: trim_def sublist_rev_right)
  also have "\<dots> = sublist (rev p) (rev (dropWhile isWhiteSpace s))"
    using assms by (intro sublist_dropWhile) (simp_all add: hd_rev)
  also have "\<dots> = sublist p (dropWhile isWhiteSpace s)" by simp
  also have "\<dots> = sublist p s" using assms by (intro sublist_dropWhile)
  finally show ?thesis .
qed

text \<open>Matching a word in a text that was expanded unit by unit.\<close>

lemma prefix_expand:
  fixes f :: "'a \<Rightarrow> 'b list"
  assumes multi: "\<And>c V rest. length (f c) \<noteq> 1 \<Longrightarrow> V \<noteq> [] \<Longrightarrow> suffix V W \<Longrightarrow> \<not> prefix V (f c @ rest)"
    and "suffix V W"
  shows "prefix V (concat (map f s)) \<longleftrightarrow> (\<exists>seg. prefix seg s \<and> list_all2 (\<lambda>c x. f c = [x]) seg V)"
  using assms(2)
proof (induction s arbitrary: V)
  case Nil
  then show ?case by auto
next
  case (Cons c cs)
  show ?case
  proof (cases V)
    case Nil
    then show ?thesis by auto
  next
    case V: (Cons x V')
    have sV': "suffix V' W" using Cons.prems V by (meson suffix_ConsD)
    show ?thesis
    proof (cases "length (f c) = 1")
      case True
      then obtain y where y: "f c = [y]" by (cases "f c") auto
      have "prefix V (concat (map f (c # cs))) \<longleftrightarrow> x = y \<and> prefix V' (concat (map f cs))"
        by (simp add: V y)
      also have "\<dots> \<longleftrightarrow> x = y \<and> (\<exists>seg. prefix seg cs \<and> list_all2 (\<lambda>c x. f c = [x]) seg V')"
        by (simp add: Cons.IH [OF sV'])
      also have "\<dots> \<longleftrightarrow> (\<exists>seg. prefix seg (c # cs) \<and> list_all2 (\<lambda>c x. f c = [x]) seg V)"
        by (auto simp: V y prefix_Cons list_all2_Cons2)
      finally show ?thesis .
    next
      case False
      have "\<not> prefix V (concat (map f (c # cs)))"
        using multi [OF False _ Cons.prems, of "concat (map f cs)"] V by simp
      moreover have "\<not> (\<exists>seg. prefix seg (c # cs) \<and> list_all2 (\<lambda>c x. f c = [x]) seg V)"
        using False by (auto simp: V prefix_Cons list_all2_Cons2)
      ultimately show ?thesis by simp
    qed
  qed
qed

lemma sublist_skip:
  assumes "W \<noteq> []" "hd W \<notin> set a" "sublist W (a @ b)"
  shows "sublist W b"
  using assms(2,3)
proof (induction a)
  case Nil
  then show ?case by simp
next
  case (Cons x a)
  from assms(1) Cons.prems(1) have "\<not> prefix W (x # a @ b)" by (cases W) auto
  with Cons show ?case by (simp add: sublist_Cons_right)
qed

lemma sublist_expand:
  fixes f :: "'a \<Rightarrow> 'b list"
  assumes multi: "\<And>c V rest. length (f c) \<noteq> 1 \<Longrightarrow> V \<noteq> [] \<Longrightarrow> suffix V W \<Longrightarrow> \<not> prefix V (f c @ rest)"
    and start: "\<And>c. length (f c) \<noteq> 1 \<Longrightarrow> hd W \<notin> set (f c)"
    and ne: "W \<noteq> []"
  shows "sublist W (concat (map f s)) \<longleftrightarrow> (\<exists>seg. sublist seg s \<and> list_all2 (\<lambda>c x. f c = [x]) seg W)"
proof (induction s)
  case Nil
  show ?case using ne by auto
next
  case (Cons c cs)
  have pre: "prefix W (concat (map f (c # cs))) \<longleftrightarrow>
      (\<exists>seg. prefix seg (c # cs) \<and> list_all2 (\<lambda>c x. f c = [x]) seg W)"
  proof (rule prefix_expand)
    show "suffix W W" by (simp add: suffix_def)
  qed (rule multi; assumption)
  have rhs: "(\<exists>seg. sublist seg (c # cs) \<and> list_all2 (\<lambda>c x. f c = [x]) seg W) \<longleftrightarrow>
      (\<exists>seg. prefix seg (c # cs) \<and> list_all2 (\<lambda>c x. f c = [x]) seg W) \<or>
      (\<exists>seg. sublist seg cs \<and> list_all2 (\<lambda>c x. f c = [x]) seg W)"
    by (auto simp: sublist_Cons_right)
  show ?case
  proof (cases "length (f c) = 1")
    case True
    then obtain y where y: "f c = [y]" by (cases "f c") auto
    have "sublist W (concat (map f (c # cs))) \<longleftrightarrow>
        prefix W (concat (map f (c # cs))) \<or> sublist W (concat (map f cs))"
      by (simp add: y sublist_Cons_right)
    then show ?thesis by (simp only: pre rhs Cons.IH)
  next
    case False
    have "sublist W (concat (map f (c # cs))) \<longleftrightarrow> sublist W (concat (map f cs))"
    proof
      assume "sublist W (concat (map f (c # cs)))"
      then have "sublist W (f c @ concat (map f cs))" by simp
      with ne start [OF False] show "sublist W (concat (map f cs))" by (rule sublist_skip)
    next
      assume "sublist W (concat (map f cs))"
      then obtain ps ss where "concat (map f cs) = ps @ W @ ss" by (auto simp: sublist_def)
      then have "concat (map f (c # cs)) = (f c @ ps) @ W @ ss" by simp
      then show "sublist W (concat (map f (c # cs)))" by (simp only: sublist_appendI)
    qed
    moreover have "\<not> (\<exists>seg. prefix seg (c # cs) \<and> list_all2 (\<lambda>c x. f c = [x]) seg W)"
      using False ne by (auto simp: prefix_Cons list_all2_Cons1)
    ultimately show ?thesis by (simp only: rhs Cons.IH) simp
  qed
qed


lemma containsIgnoringCase_iff:
  "containsIgnoringCase s w \<longleftrightarrow> (\<exists>seg. sublist seg s \<and> list_all2 sameLetter seg w)"
proof (induction s)
  case Nil
  show ?case by auto
next
  case (Cons c cs)
  have "(length w \<le> length (c # cs) \<and> list_all2 sameLetter (take (length w) (c # cs)) w) \<longleftrightarrow>
        (\<exists>seg. prefix seg (c # cs) \<and> list_all2 sameLetter seg w)"
  proof
    assume "length w \<le> length (c # cs) \<and> list_all2 sameLetter (take (length w) (c # cs)) w"
    then have "prefix (take (length w) (c # cs)) (c # cs) \<and>
               list_all2 sameLetter (take (length w) (c # cs)) w"
      by (simp add: take_is_prefix)
    then show "\<exists>seg. prefix seg (c # cs) \<and> list_all2 sameLetter seg w" by blast
  next
    assume "\<exists>seg. prefix seg (c # cs) \<and> list_all2 sameLetter seg w"
    then obtain seg where p: "prefix seg (c # cs)" and l: "list_all2 sameLetter seg w" by blast
    from l have len: "length seg = length w" by (rule list_all2_lengthD)
    with p have "seg = take (length w) (c # cs)" "length w \<le> length (c # cs)"
      by (auto simp: prefix_take)
    with l show "length w \<le> length (c # cs) \<and> list_all2 sameLetter (take (length w) (c # cs)) w"
      by simp
  qed
  with Cons show ?case by (auto simp: sublist_Cons_right)
qed

lemma list_all2_ends:
  assumes "list_all2 P xs ys" "ys \<noteq> []"
  shows "xs \<noteq> []" "P (hd xs) (hd ys)" "P (last xs) (last ys)"
proof -
  from assms show ne: "xs \<noteq> []" by auto
  from assms ne show "P (hd xs) (hd ys)" by (cases xs; cases ys) auto
  from assms have "list_all2 P (rev xs) (rev ys)" by simp
  with assms(2) ne have "P (hd (rev xs)) (hd (rev ys))" by (cases "rev xs"; cases "rev ys") auto
  with assms(2) ne show "P (last xs) (last ys)" by (simp add: hd_rev)
qed

lemma match_trim:
  assumes W: "W \<noteq> []"
    and ws: "\<And>c. isWhiteSpace c \<Longrightarrow> \<not> R c (hd W) \<and> \<not> R c (last W)"
  shows "(\<exists>seg. sublist seg (trim s) \<and> list_all2 R seg W) \<longleftrightarrow>
         (\<exists>seg. sublist seg s \<and> list_all2 R seg W)"
proof -
  have "sublist seg (trim s) = sublist seg s" if "list_all2 R seg W" for seg
  proof (rule sublist_trim)
    from list_all2_ends [OF that W] ws
    show "seg \<noteq> []" "\<not> isWhiteSpace (hd seg)" "\<not> isWhiteSpace (last seg)"
      by blast+
  qed
  then show ?thesis by blast
qed

lemma list_all2_cong_set:
  assumes "\<And>x y. y \<in> set ys \<Longrightarrow> P x y = Q x y"
  shows "list_all2 P xs ys = list_all2 Q xs ys"
  using assms
proof (induction ys arbitrary: xs)
  case Nil
  show ?case by simp
next
  case (Cons y ys)
  then show ?case by (cases xs) auto
qed

lemma retrieveUnits: "str ''RETRIEVE'' = [82, 69, 84, 82, 73, 69, 86, 69]"
  by code_simp

lemma yesUnits: "str ''yes'' = [121, 101, 115]"
  by code_simp

lemma upper_multi:
  "length (toUpperUnits c) \<noteq> 1 \<Longrightarrow>
     c \<in> {0xDF, 0x149, 0x1F0, 0x1E96, 0x1E97, 0x1E98, 0x1E99, 0x1E9A,
          0xFB00, 0xFB01, 0xFB02, 0xFB03, 0xFB04, 0xFB05, 0xFB06}"
  by (simp add: toUpperUnits_def upperSpecial_def split: if_splits)

lemma upper_letter:
  assumes "x \<in> {82, 69, 84, 73, 86}"
  shows "toUpperUnits c = [x] \<longleftrightarrow> sameLetter (dotlessToI c) x"
  using assms
  by (auto simp: toUpperUnits_def upperSpecial_def sameLetter_def foldCase_def dotlessToI_def
        split: if_splits)

lemma lower_multi: "length (toLowerUnits c) \<noteq> 1 \<Longrightarrow> c = 0x130"
  by (simp add: toLowerUnits_def lowerSpecial_def split: if_splits)

lemma lower_letter:
  assumes "x \<in> {121, 101, 115}"
  shows "toLowerUnits c = [x] \<longleftrightarrow> sameLetter c x"
  using assms
  by (auto simp: toLowerUnits_def lowerSpecial_def sameLetter_def foldCase_def split: if_splits)

lemma map_match:
  "(\<exists>seg. sublist seg r \<and> list_all2 (\<lambda>c x. P (d c) x) seg W) \<longleftrightarrow>
   (\<exists>seg. sublist seg (map d r) \<and> list_all2 P seg W)"
proof
  assume "\<exists>seg. sublist seg r \<and> list_all2 (\<lambda>c x. P (d c) x) seg W"
  then obtain seg where "sublist seg r" "list_all2 (\<lambda>c x. P (d c) x) seg W" by blast
  then have "sublist (map d seg) (map d r) \<and> list_all2 P (map d seg) W"
    by (simp add: map_mono_sublist list_all2_map1)
  then show "\<exists>seg. sublist seg (map d r) \<and> list_all2 P seg W" by blast
next
  assume "\<exists>seg. sublist seg (map d r) \<and> list_all2 P seg W"
  then obtain seg where s: "sublist seg (map d r)" and l: "list_all2 P seg W" by blast
  from sublist_map_rightE [OF s] obtain seg' where "sublist seg' r" "seg = map d seg'" by blast
  with l have "sublist seg' r \<and> list_all2 (\<lambda>c x. P (d c) x) seg' W"
    by (simp add: list_all2_map1)
  then show "\<exists>seg. sublist seg r \<and> list_all2 (\<lambda>c x. P (d c) x) seg W" by blast
qed

lemma retrieve_suffixes:
  "V \<noteq> [] \<Longrightarrow> suffix V [82, 69, 84, 82, 73, 69, 86, 69 :: nat] \<Longrightarrow>
     hd V \<in> {82, 69, 73, 86} \<or> (\<exists>V'. V = 84 # 82 # V')"
  by (auto simp: suffix_Cons)

lemma upper_multi_retrieve:
  assumes "length (toUpperUnits c) \<noteq> 1" "V \<noteq> []" "suffix V [82, 69, 84, 82, 73, 69, 86, 69]"
  shows "\<not> prefix V (toUpperUnits c @ rest)"
proof -
  from retrieve_suffixes [OF assms(2,3)] assms(2)
  consider x V' where "V = x # V'" "x \<in> {82, 69, 73, 86}" | V' where "V = 84 # 82 # V'"
    by (cases V) auto
  then show ?thesis
  proof cases
    case 1
    with upper_multi [OF assms(1)] show ?thesis
      by (auto simp: toUpperUnits_def upperSpecial_def)
  next
    case 2
    with upper_multi [OF assms(1)] show ?thesis
      by (auto simp: toUpperUnits_def upperSpecial_def)
  qed
qed

lemma upper_multi_start:
  assumes "length (toUpperUnits c) \<noteq> 1"
  shows "82 \<notin> set (toUpperUnits c)"
  using upper_multi [OF assms] by (auto simp: toUpperUnits_def upperSpecial_def)

lemma white_upper: "isWhiteSpace c \<Longrightarrow> toUpperUnits c = [c]"
  by (auto simp: isWhiteSpace_def toUpperUnits_def upperSpecial_def)

lemma white_lower: "isWhiteSpace c \<Longrightarrow> toLowerUnits c = [c]"
  by (auto simp: isWhiteSpace_def toLowerUnits_def lowerSpecial_def)

lemma retrieve_match:
  "includesStr (toUpperCase (trim reply)) (str ''RETRIEVE'') =
     containsIgnoringCase (map dotlessToI reply) (str ''RETRIEVE'')"
proof -
  let ?W = "[82, 69, 84, 82, 73, 69, 86, 69] :: nat list"
  let ?R = "\<lambda>c x. toUpperUnits c = [x]"
  have "includesStr (toUpperCase (trim reply)) ?W =
          sublist ?W (concat (map toUpperUnits (trim reply)))"
    by (simp only: includesStr_sublist toUpperCase_def)
  also have "\<dots> = (\<exists>seg. sublist seg (trim reply) \<and> list_all2 ?R seg ?W)"
  proof (rule sublist_expand)
    show "\<not> prefix V (toUpperUnits c @ rest)"
      if "length (toUpperUnits c) \<noteq> 1" "V \<noteq> []" "suffix V ?W" for c V rest
      using that by (rule upper_multi_retrieve)
    show "hd ?W \<notin> set (toUpperUnits c)" if "length (toUpperUnits c) \<noteq> 1" for c
      using upper_multi_start [OF that] by simp
    show "?W \<noteq> []" by simp
  qed
  also have "\<dots> = (\<exists>seg. sublist seg reply \<and> list_all2 ?R seg ?W)"
  proof (rule match_trim)
    show "?W \<noteq> []" by simp
    show "\<not> toUpperUnits c = [hd ?W] \<and> \<not> toUpperUnits c = [last ?W]" if "isWhiteSpace c" for c
      using that white_upper [OF that] by (auto simp: isWhiteSpace_def)
  qed
  also have "\<dots> = (\<exists>seg. sublist seg reply \<and>
                      list_all2 (\<lambda>c x. sameLetter (dotlessToI c) x) seg ?W)"
  proof -
    have "list_all2 ?R seg ?W = list_all2 (\<lambda>c x. sameLetter (dotlessToI c) x) seg ?W" for seg
      by (rule list_all2_cong_set, rule upper_letter) auto
    then show ?thesis by simp
  qed
  also have "\<dots> = (\<exists>seg. sublist seg (map dotlessToI reply) \<and> list_all2 sameLetter seg ?W)"
    by (rule map_match)
  also have "\<dots> = containsIgnoringCase (map dotlessToI reply) ?W"
    by (simp only: containsIgnoringCase_iff)
  finally show ?thesis by (simp only: retrieveUnits)
qed

lemma yes_match:
  "includesStr (toLowerCase (trim reply)) (str ''yes'') = containsIgnoringCase reply (str ''yes'')"
proof -
  let ?W = "[121, 101, 115] :: nat list"
  let ?R = "\<lambda>c x. toLowerUnits c = [x]"
  have "includesStr (toLowerCase (trim reply)) ?W =
          sublist ?W (concat (map toLowerUnits (trim reply)))"
    by (simp only: includesStr_sublist toLowerCase_def)
  also have "\<dots> = (\<exists>seg. sublist seg (trim reply) \<and> list_all2 ?R seg ?W)"
  proof (rule sublist_expand)
    show "\<not> prefix V (toLowerUnits c @ rest)"
      if "length (toLowerUnits c) \<noteq> 1" "V \<noteq> []" "suffix V ?W" for c V rest
      using lower_multi [OF that(1)] that(2,3)
      by (auto simp: toLowerUnits_def lowerSpecial_def suffix_Cons)
    show "hd ?W \<notin> set (toLowerUnits c)" if "length (toLowerUnits c) \<noteq> 1" for c
      using lower_multi [OF that] by (simp add: toLowerUnits_def lowerSpecial_def)
    show "?W \<noteq> []" by simp
  qed
  also have "\<dots> = (\<exists>seg. sublist seg reply \<and> list_all2 ?R seg ?W)"
  proof (rule match_trim)
    show "?W \<noteq> []" by simp
    show "\<not> toLowerUnits c = [hd ?W] \<and> \<not> toLowerUnits c = [last ?W]" if "isWhiteSpace c" for c
      using that white_lower [OF that] by (auto simp: isWhiteSpace_def)
  qed
  also have "\<dots> = (\<exists>seg. sublist seg reply \<and> list_all2 sameLetter seg ?W)"
  proof -
    have "list_all2 ?R seg ?W = list_all2 sameLetter seg ?W" for seg
      by (rule list_all2_cong_set, rule lower_letter) auto
    then show ?thesis by simp
  qed
  also have "\<dots> = containsIgnoringCase reply ?W"
    by (simp only: containsIgnoringCase_iff)
  finally show ?thesis by (simp only: yesUnits)
qed


section \<open>What each stage does\<close>

lemma generateCompletion_world:
  "snd (generateCompletion env msgs opts w) = w @ [CompletionCall msgs opts]"
  by (simp add: generateCompletion_def Let_def split: sum.splits)

lemma searchDocuments_world:
  "snd (searchDocuments env q opts w) = w @ [SearchCall q opts]"
  by (simp add: searchDocuments_def Let_def split: sum.splits)

lemma agent_step:
  "fst (stepNode env Agent s w) =
     (case fst (generateCompletion env [userMessage (analysisPrompt s)]
                  \<lparr> temperature = Some 0.1, maxTokens = Some 10 \<rparr> (w @ [ClockRead])) of
        Inr decision \<Rightarrow>
          s\<lparr> needsRAG := Some (includesStr (toUpperCase (trim decision)) (str ''RETRIEVE'')),
             searchQuery := (if includesStr (toUpperCase (trim decision)) (str ''RETRIEVE'')
                             then userQuery s else []),
             executionSteps := executionSteps s @
               [\<lparr> step = str ''agent_analysis'', timestamp = dateNow env w,
                  details = [(str ''userQuery'', JString (userQuery s))] \<rparr>],
             messages := messages s @ [HumanMessage (userQuery s)] \<rparr>
      | Inl e \<Rightarrow>
          s\<lparr> needsRAG := Some False,
             executionSteps := executionSteps s @
               [\<lparr> step = str ''agent_analysis'', timestamp = dateNow env w,
                  details = [(str ''userQuery'', JString (userQuery s))] \<rparr>],
             messages := messages s @ [HumanMessage (userQuery s)] \<rparr>)"
  by (simp add: stepNode_def agentNode_def addStep_def applyWrites_def Let_def
        split: prod.splits sum.splits)

lemma agent_world:
  "snd (stepNode env Agent s w) =
     w @ [ClockRead, CompletionCall [userMessage (analysisPrompt s)]
                       \<lparr> temperature = Some 0.1, maxTokens = Some 10 \<rparr>]"
  using generateCompletion_world [of env "[userMessage (analysisPrompt s)]"
           "\<lparr> temperature = Some 0.1, maxTokens = Some 10 \<rparr>" "w @ [ClockRead]"]
  by (auto simp: stepNode_def agentNode_def addStep_def Let_def split: prod.splits sum.splits)

lemma retrieve_step:
  "fst (stepNode env Retrieve s w) =
     s\<lparr> retrievedDocs :=
           (case fst (searchDocuments env (searchQuery s)
                        \<lparr> top_opt = Some 5, queryType = Some (str ''semantic'') \<rparr> (w @ [ClockRead])) of
              Inr searchResults \<Rightarrow> map toRetrievedDoc (results searchResults)
            | Inl e \<Rightarrow> []),
         executionSteps := executionSteps s @
           [\<lparr> step = str ''retrieval'', timestamp = dateNow env w,
              details = [(str ''searchQuery'', JString (searchQuery s)),
                         (str ''retryCount'', JNumber (retryCount s))] \<rparr>] \<rparr>"
  by (simp add: stepNode_def retrieveNode_def addStep_def applyWrites_def
        split: prod.splits sum.splits)

lemma retrieve_world:
  "snd (stepNode env Retrieve s w) =
     w @ [ClockRead, SearchCall (searchQuery s)
                       \<lparr> top_opt = Some 5, queryType = Some (str ''semantic'') \<rparr>]"
  using searchDocuments_world [of env "searchQuery s"
           "\<lparr> top_opt = Some 5, queryType = Some (str ''semantic'') \<rparr>" "w @ [ClockRead]"]
  by (auto simp: stepNode_def retrieveNode_def addStep_def split: prod.splits sum.splits)

lemma grade_step_empty:
  "retrievedDocs s = [] \<Longrightarrow>
   fst (stepNode env GradeDocuments s w) =
     s\<lparr> ragAccepted := Some False,
         rejectionReason := str ''No documents retrieved'',
         executionSteps := executionSteps s @
           [\<lparr> step = str ''grade_documents'', timestamp = dateNow env w,
              details = [(str ''docCount'', JNumber 0)] \<rparr>] \<rparr>"
  by (simp add: stepNode_def gradeDocumentsNode_def addStep_def applyWrites_def)

lemma grade_world_empty:
  "retrievedDocs s = [] \<Longrightarrow> snd (stepNode env GradeDocuments s w) = w @ [ClockRead]"
  by (simp add: stepNode_def gradeDocumentsNode_def addStep_def)

lemma grade_step_docs:
  "retrievedDocs s \<noteq> [] \<Longrightarrow>
   fst (stepNode env GradeDocuments s w) =
     (case fst (generateCompletion env [userMessage (gradePrompt env s)]
                  \<lparr> temperature = Some 0.1, maxTokens = Some 5 \<rparr> (w @ [ClockRead])) of
        Inr gradeResult \<Rightarrow>
          s\<lparr> ragAccepted := Some (includesStr (toLowerCase (trim gradeResult)) (str ''yes'')),
             rejectionReason := (if includesStr (toLowerCase (trim gradeResult)) (str ''yes'')
                                 then [] else str ''Documents not relevant to query''),
             executionSteps := executionSteps s @
               [\<lparr> step = str ''grade_documents'', timestamp = dateNow env w,
                  details = [(str ''docCount'', JNumber (int (length (retrievedDocs s))))] \<rparr>] \<rparr>
      | Inl e \<Rightarrow>
          s\<lparr> ragAccepted := Some False,
             rejectionReason := str ''Error evaluating document relevance'',
             executionSteps := executionSteps s @
               [\<lparr> step = str ''grade_documents'', timestamp = dateNow env w,
                  details = [(str ''docCount'', JNumber (int (length (retrievedDocs s))))] \<rparr>] \<rparr>)"
  by (simp add: stepNode_def gradeDocumentsNode_def addStep_def applyWrites_def Let_def
        split: prod.splits sum.splits)

lemma grade_world_docs:
  "retrievedDocs s \<noteq> [] \<Longrightarrow>
   snd (stepNode env GradeDocuments s w) =
     w @ [ClockRead, CompletionCall [userMessage (gradePrompt env s)]
                       \<lparr> temperature = Some 0.1, maxTokens = Some 5 \<rparr>]"
  using generateCompletion_world [of env "[userMessage (gradePrompt env s)]"
           "\<lparr> temperature = Some 0.1, maxTokens = Some 5 \<rparr>" "w @ [ClockRead]"]
  by (auto simp: stepNode_def gradeDocumentsNode_def addStep_def Let_def
        split: prod.splits sum.splits)

lemma generate_step:
  "fst (stepNode env Generate s w) =
     s\<lparr> finalAnswer :=
           (case fst (generateCompletion env [userMessage (generationPrompt s)]
                        \<lparr> temperature = Some 0.7, maxTokens = Some 2000 \<rparr> (w @ [ClockRead])) of
              Inr a \<Rightarrow> a
            | Inl e \<Rightarrow> fallbackAnswer),
         executionSteps := executionSteps s @
           [\<lparr> step = str ''generate'', timestamp = dateNow env w,
              details = [(str ''ragAccepted'', jsTriState (ragAccepted s)),
                         (str ''docCount'', JNumber (int (length (retrievedDocs s))))] \<rparr>],
         messages := messages s @ messages s @
           [AIMessage
              (case fst (generateCompletion env [userMessage (generationPrompt s)]
                           \<lparr> temperature = Some 0.7, maxTokens = Some 2000 \<rparr> (w @ [ClockRead])) of
                 Inr a \<Rightarrow> a
               | Inl e \<Rightarrow> str ''Error generating response'')] \<rparr>"
  by (simp add: stepNode_def generateNode_def addStep_def applyWrites_def
        split: prod.splits sum.splits)

lemma generate_world:
  "snd (stepNode env Generate s w) =
     w @ [ClockRead, CompletionCall [userMessage (generationPrompt s)]
                       \<lparr> temperature = Some 0.7, maxTokens = Some 2000 \<rparr>]"
  using generateCompletion_world [of env "[userMessage (generationPrompt s)]"
           "\<lparr> temperature = Some 0.7, maxTokens = Some 2000 \<rparr>" "w @ [ClockRead]"]
  by (auto simp: stepNode_def generateNode_def addStep_def split: prod.splits sum.splits)

lemma invokeFrom_unfold:
  "invokeFrom env (Suc (Suc (Suc (Suc (Suc k))))) (Node Agent) s0 w =
     (let s1 = fst (stepNode env Agent s0 w); w1 = snd (stepNode env Agent s0 w) in
      if needsRAG s1 = Some True then
        (let s2 = fst (stepNode env Retrieve s1 w1); w2 = snd (stepNode env Retrieve s1 w1);
             s3 = fst (stepNode env GradeDocuments s2 w2);
             w3 = snd (stepNode env GradeDocuments s2 w2)
         in (Inr (fst (stepNode env Generate s3 w3)), snd (stepNode env Generate s3 w3)))
      else (Inr (fst (stepNode env Generate s1 w1)), snd (stepNode env Generate s1 w1)))"
  by (simp add: decideToRetrieve_def gradeDocuments_def Let_def split: prod.splits)

lemma invokeFrom_enough:
  "invokeFrom env (5 + k) (Node Agent) s0 w = invokeFrom env 5 (Node Agent) s0 w"
proof -
  have "5 + k = Suc (Suc (Suc (Suc (Suc k))))" "(5 :: nat) = Suc (Suc (Suc (Suc (Suc 0))))"
    by simp_all
  then show ?thesis by (simp only: invokeFrom_unfold)
qed

lemma invoke_limit: "invoke env s0 w = invokeFrom env 5 (Node Agent) s0 w"
  using invokeFrom_enough [of env 20 s0 w] by (simp add: invoke_def defaultRecursionLimit_def)

lemma invoke_unfold:
  "invoke env s0 w =
     (let s1 = fst (stepNode env Agent s0 w); w1 = snd (stepNode env Agent s0 w) in
      if needsRAG s1 = Some True then
        (let s2 = fst (stepNode env Retrieve s1 w1); w2 = snd (stepNode env Retrieve s1 w1);
             s3 = fst (stepNode env GradeDocuments s2 w2);
             w3 = snd (stepNode env GradeDocuments s2 w2)
         in (Inr (fst (stepNode env Generate s3 w3)), snd (stepNode env Generate s3 w3)))
      else (Inr (fst (stepNode env Generate s1 w1)), snd (stepNode env Generate s1 w1)))"
proof -
  have "(5 :: nat) = Suc (Suc (Suc (Suc (Suc 0))))" by simp
  then show ?thesis by (simp only: invoke_limit invokeFrom_unfold)
qed

text \<open>
  One unit short, the engine refuses a run that has nothing left to do: the four stages at
  a limit of 4, the two stages at a limit of 2.
\<close>

lemma invokeFrom_short:
  "needsRAG (fst (stepNode env Agent s0 w)) = Some True \<Longrightarrow>
     isl (fst (invokeFrom env 4 (Node Agent) s0 w))"
  "needsRAG (fst (stepNode env Agent s0 w)) \<noteq> Some True \<Longrightarrow>
     isl (fst (invokeFrom env 2 (Node Agent) s0 w))"
  by (auto simp: eval_nat_numeral decideToRetrieve_def gradeDocuments_def split: prod.splits)

lemma agent_frame:
  "userQuery (fst (stepNode env Agent s w)) = userQuery s"
  "sessionId (fst (stepNode env Agent s w)) = sessionId s"
  "retrievedDocs (fst (stepNode env Agent s w)) = retrievedDocs s"
  "ragAccepted (fst (stepNode env Agent s w)) = ragAccepted s"
  "rejectionReason (fst (stepNode env Agent s w)) = rejectionReason s"
  "finalAnswer (fst (stepNode env Agent s w)) = finalAnswer s"
  "retryCount (fst (stepNode env Agent s w)) = retryCount s"
  "maxRetries (fst (stepNode env Agent s w)) = maxRetries s"
  by (simp_all add: agent_step split: sum.splits)

lemma retrieve_frame:
  "userQuery (fst (stepNode env Retrieve s w)) = userQuery s"
  "sessionId (fst (stepNode env Retrieve s w)) = sessionId s"
  "needsRAG (fst (stepNode env Retrieve s w)) = needsRAG s"
  "searchQuery (fst (stepNode env Retrieve s w)) = searchQuery s"
  "ragAccepted (fst (stepNode env Retrieve s w)) = ragAccepted s"
  "rejectionReason (fst (stepNode env Retrieve s w)) = rejectionReason s"
  "finalAnswer (fst (stepNode env Retrieve s w)) = finalAnswer s"
  "retryCount (fst (stepNode env Retrieve s w)) = retryCount s"
  "maxRetries (fst (stepNode env Retrieve s w)) = maxRetries s"
  by (simp_all add: retrieve_step)

lemma grade_frame:
  "userQuery (fst (stepNode env GradeDocuments s w)) = userQuery s"
  "sessionId (fst (stepNode env GradeDocuments s w)) = sessionId s"
  "needsRAG (fst (stepNode env GradeDocuments s w)) = needsRAG s"
  "searchQuery (fst (stepNode env GradeDocuments s w)) = searchQuery s"
  "retrievedDocs (fst (stepNode env GradeDocuments s w)) = retrievedDocs s"
  "finalAnswer (fst (stepNode env GradeDocuments s w)) = finalAnswer s"
  "retryCount (fst (stepNode env GradeDocuments s w)) = retryCount s"
  "maxRetries (fst (stepNode env GradeDocuments s w)) = maxRetries s"
  by (cases "retrievedDocs s = []";
      simp add: grade_step_empty grade_step_docs split: sum.splits)+

lemma generate_frame:
  "userQuery (fst (stepNode env Generate s w)) = userQuery s"
  "sessionId (fst (stepNode env Generate s w)) = sessionId s"
  "needsRAG (fst (stepNode env Generate s w)) = needsRAG s"
  "searchQuery (fst (stepNode env Generate s w)) = searchQuery s"
  "retrievedDocs (fst (stepNode env Generate s w)) = retrievedDocs s"
  "ragAccepted (fst (stepNode env Generate s w)) = ragAccepted s"
  "rejectionReason (fst (stepNode env Generate s w)) = rejectionReason s"
  "retryCount (fst (stepNode env Generate s w)) = retryCount s"
  "maxRetries (fst (stepNode env Generate s w)) = maxRetries s"
  by (simp_all add: generate_step)

lemma step_appends_one:
  "map step (executionSteps (fst (stepNode env Agent s w))) =
     map step (executionSteps s) @ [str ''agent_analysis'']"
  "map step (executionSteps (fst (stepNode env Retrieve s w))) =
     map step (executionSteps s) @ [str ''retrieval'']"
  "map step (executionSteps (fst (stepNode env GradeDocuments s w))) =
     map step (executionSteps s) @ [str ''grade_documents'']"
  "map step (executionSteps (fst (stepNode env Generate s w))) =
     map step (executionSteps s) @ [str ''generate'']"
     apply (simp add: agent_step split: sum.splits)
    apply (simp add: retrieve_step)
   apply (cases "retrievedDocs s = []"; simp add: grade_step_empty grade_step_docs split: sum.splits)
  apply (simp add: generate_step)
  done

lemma prompt_cong:
  "userQuery a = userQuery b \<Longrightarrow> analysisPrompt a = analysisPrompt b"
  "userQuery a = userQuery b \<Longrightarrow> retrievedDocs a = retrievedDocs b \<Longrightarrow>
     gradePrompt env a = gradePrompt env b"
  "userQuery a = userQuery b \<Longrightarrow> retrievedDocs a = retrievedDocs b \<Longrightarrow>
     ragAccepted a = ragAccepted b \<Longrightarrow> rejectionReason a = rejectionReason b \<Longrightarrow>
     generationPrompt a = generationPrompt b"
  by (simp_all add: analysisPrompt_def gradePrompt_def generationPrompt_def ragPrompt_def
        generalPrompt_def rejectionNote_def)

lemma invoke_returns: "\<exists>s w'. invoke env s0 w = (Inr s, w')"
  by (simp add: invoke_unfold Let_def)

lemma invoke_trace:
  assumes "invoke env s0 w = (Inr s, w')"
  shows "w' = w @ runTrace env s"
proof -
  let ?s1 = "fst (stepNode env Agent s0 w)" and ?w1 = "snd (stepNode env Agent s0 w)"
  show ?thesis
  proof (cases "needsRAG ?s1 = Some True")
    case False
    with assms have s: "s = fst (stepNode env Generate ?s1 ?w1)"
      and w': "w' = snd (stepNode env Generate ?s1 ?w1)"
      by (simp_all add: invoke_unfold Let_def)
    have "analysisPrompt s = analysisPrompt s0" "generationPrompt s = generationPrompt ?s1"
      unfolding s by (rule prompt_cong; simp add: generate_frame agent_frame)+
    with False show ?thesis
      unfolding w' by (simp add: generate_world agent_world runTrace_def s generate_frame)
  next
    case True
    let ?s2 = "fst (stepNode env Retrieve ?s1 ?w1)" and ?w2 = "snd (stepNode env Retrieve ?s1 ?w1)"
    let ?s3 = "fst (stepNode env GradeDocuments ?s2 ?w2)"
    let ?w3 = "snd (stepNode env GradeDocuments ?s2 ?w2)"
    from True assms have s: "s = fst (stepNode env Generate ?s3 ?w3)"
      and w': "w' = snd (stepNode env Generate ?s3 ?w3)"
      by (simp_all add: invoke_unfold Let_def)
    have p: "analysisPrompt s = analysisPrompt s0" "generationPrompt s = generationPrompt ?s3"
      "gradePrompt env s = gradePrompt env ?s2"
      unfolding s
      by (rule prompt_cong; simp add: generate_frame grade_frame retrieve_frame agent_frame)+
    have f: "needsRAG s = Some True" "searchQuery s = searchQuery ?s1"
      "retrievedDocs s = retrievedDocs ?s2"
      using True unfolding s by (simp_all add: generate_frame grade_frame retrieve_frame)
    show ?thesis
    proof (cases "retrievedDocs ?s2 = []")
      case True
      then show ?thesis
        unfolding w' by (simp add: generate_world grade_world_empty retrieve_world agent_world
            runTrace_def p f)
    next
      case False
      then show ?thesis
        unfolding w' by (simp add: generate_world grade_world_docs retrieve_world agent_world
            runTrace_def p f)
    qed
  qed
qed

section \<open>What a run does\<close>

lemma invoke_cases:
  assumes "invoke env s0 w = (Inr s, w')"
  obtains (direct) s1 w1 where
      "s1 = fst (stepNode env Agent s0 w)" "w1 = snd (stepNode env Agent s0 w)"
      "needsRAG s1 \<noteq> Some True"
      "s = fst (stepNode env Generate s1 w1)" "w' = snd (stepNode env Generate s1 w1)"
  | (retrieval) s1 w1 s2 w2 s3 w3 where
      "s1 = fst (stepNode env Agent s0 w)" "w1 = snd (stepNode env Agent s0 w)"
      "needsRAG s1 = Some True"
      "s2 = fst (stepNode env Retrieve s1 w1)" "w2 = snd (stepNode env Retrieve s1 w1)"
      "s3 = fst (stepNode env GradeDocuments s2 w2)"
      "w3 = snd (stepNode env GradeDocuments s2 w2)"
      "s = fst (stepNode env Generate s3 w3)" "w' = snd (stepNode env Generate s3 w3)"
  using assms by (cases "needsRAG (fst (stepNode env Agent s0 w)) = Some True")
    (simp_all add: invoke_unfold Let_def)

lemma run_frame:
  assumes "invoke env s0 w = (Inr s, w')"
  shows "userQuery s = userQuery s0" "sessionId s = sessionId s0"
    "retryCount s = retryCount s0" "maxRetries s = maxRetries s0"
  using assms
  by (cases rule: invoke_cases;
      simp add: agent_frame retrieve_frame grade_frame generate_frame)+

lemma agent_needsRAG:
  "needsRAG (fst (stepNode env Agent s w)) =
     Some (case fst (generateCompletion env [userMessage (analysisPrompt s)]
                      \<lparr> temperature = Some 0.1, maxTokens = Some 10 \<rparr> (w @ [ClockRead])) of
             Inr decision \<Rightarrow> containsIgnoringCase (map dotlessToI decision) (str ''RETRIEVE'')
           | Inl e \<Rightarrow> False)"
  by (simp add: agent_step retrieve_match split: sum.splits)

lemma agent_searchQuery:
  "searchQuery (fst (stepNode env Agent s w)) =
     (case fst (generateCompletion env [userMessage (analysisPrompt s)]
                      \<lparr> temperature = Some 0.1, maxTokens = Some 10 \<rparr> (w @ [ClockRead])) of
        Inr decision \<Rightarrow> if containsIgnoringCase (map dotlessToI decision) (str ''RETRIEVE'') then userQuery s else []
      | Inl e \<Rightarrow> searchQuery s)"
  by (simp add: agent_step retrieve_match split: sum.splits)

lemma run_needsRAG:
  assumes "invoke env s0 w = (Inr s, w')"
  shows "needsRAG s =
     Some (case fst (generateCompletion env [userMessage (analysisPrompt s0)]
                      \<lparr> temperature = Some 0.1, maxTokens = Some 10 \<rparr> (w @ [ClockRead])) of
             Inr decision \<Rightarrow> containsIgnoringCase (map dotlessToI decision) (str ''RETRIEVE'')
           | Inl e \<Rightarrow> False)"
  using assms
  by (cases rule: invoke_cases)
     (simp_all add: retrieve_frame grade_frame generate_frame agent_needsRAG)

lemma run_searchQuery:
  assumes "invoke env s0 w = (Inr s, w')"
  shows "searchQuery s =
     (case fst (generateCompletion env [userMessage (analysisPrompt s0)]
                      \<lparr> temperature = Some 0.1, maxTokens = Some 10 \<rparr> (w @ [ClockRead])) of
        Inr decision \<Rightarrow> if containsIgnoringCase (map dotlessToI decision) (str ''RETRIEVE'') then userQuery s0 else []
      | Inl e \<Rightarrow> searchQuery s0)"
  using assms
  by (cases rule: invoke_cases)
     (simp_all add: retrieve_frame grade_frame generate_frame agent_searchQuery)

lemma run_skipped:
  assumes "invoke env s0 w = (Inr s, w')" "needsRAG s \<noteq> Some True"
  shows "retrievedDocs s = retrievedDocs s0" "ragAccepted s = ragAccepted s0"
    "rejectionReason s = rejectionReason s0"
  using assms
  by (cases rule: invoke_cases;
      simp add: agent_frame retrieve_frame grade_frame generate_frame)+

lemma run_retrievedDocs:
  assumes "invoke env s0 w = (Inr s, w')" "needsRAG s = Some True"
  shows "retrievedDocs s =
     (case fst (searchDocuments env (searchQuery s)
                  \<lparr> top_opt = Some 5, queryType = Some (str ''semantic'') \<rparr>
                  (w @ [ClockRead,
                        CompletionCall [userMessage (analysisPrompt s0)]
                          \<lparr> temperature = Some 0.1, maxTokens = Some 10 \<rparr>,
                        ClockRead])) of
        Inr searchResults \<Rightarrow> map toRetrievedDoc (results searchResults)
      | Inl e \<Rightarrow> [])"
  using assms
  by (cases rule: invoke_cases)
     (simp_all add: agent_frame retrieve_frame grade_frame generate_frame retrieve_step agent_world)

lemma run_graded_empty:
  assumes "invoke env s0 w = (Inr s, w')" "needsRAG s = Some True" "retrievedDocs s = []"
  shows "ragAccepted s = Some False" "rejectionReason s = str ''No documents retrieved''"
  using assms
  by (cases rule: invoke_cases;
      simp add: generate_frame grade_frame grade_step_empty)+

lemma run_graded_docs:
  assumes "invoke env s0 w = (Inr s, w')" "needsRAG s = Some True" "retrievedDocs s \<noteq> []"
  shows "ragAccepted s =
     Some (case fst (generateCompletion env [userMessage (gradePrompt env s)]
                      \<lparr> temperature = Some 0.1, maxTokens = Some 5 \<rparr>
                      (w @ [ClockRead,
                            CompletionCall [userMessage (analysisPrompt s0)]
                              \<lparr> temperature = Some 0.1, maxTokens = Some 10 \<rparr>,
                            ClockRead,
                            SearchCall (searchQuery s)
                              \<lparr> top_opt = Some 5, queryType = Some (str ''semantic'') \<rparr>,
                            ClockRead])) of
             Inr gradeResult \<Rightarrow> containsIgnoringCase gradeResult (str ''yes'')
           | Inl e \<Rightarrow> False)" (is ?A)
    and "rejectionReason s =
     (case fst (generateCompletion env [userMessage (gradePrompt env s)]
                      \<lparr> temperature = Some 0.1, maxTokens = Some 5 \<rparr>
                      (w @ [ClockRead,
                            CompletionCall [userMessage (analysisPrompt s0)]
                              \<lparr> temperature = Some 0.1, maxTokens = Some 10 \<rparr>,
                            ClockRead,
                            SearchCall (searchQuery s)
                              \<lparr> top_opt = Some 5, queryType = Some (str ''semantic'') \<rparr>,
                            ClockRead])) of
        Inr gradeResult \<Rightarrow>
          if containsIgnoringCase gradeResult (str ''yes'') then [] else str ''Documents not relevant to query''
      | Inl e \<Rightarrow> str ''Error evaluating document relevance'')" (is ?B)
proof -
  from assms(1) have "?A \<and> ?B"
  proof (cases rule: invoke_cases)
    case direct
    with assms(2) show ?thesis
      by (simp add: generate_frame)
  next
    case (retrieval s1 w1 s2 w2 s3 w3)
    have docs: "retrievedDocs s2 \<noteq> []"
      using assms(3) retrieval by (simp add: generate_frame grade_frame)
    have p: "gradePrompt env s = gradePrompt env s2"
      by (rule prompt_cong) (simp_all add: retrieval generate_frame grade_frame)
    have q: "searchQuery s = searchQuery s1"
      by (simp add: retrieval generate_frame grade_frame retrieve_frame)
    have w2: "w2 = w @ [ClockRead,
                        CompletionCall [userMessage (analysisPrompt s0)]
                          \<lparr> temperature = Some 0.1, maxTokens = Some 10 \<rparr>,
                        ClockRead,
                        SearchCall (searchQuery s)
                          \<lparr> top_opt = Some 5, queryType = Some (str ''semantic'') \<rparr>]"
      by (simp add: retrieval(1,2,5) retrieve_world agent_world q)
    have s3: "s3 = fst (stepNode env GradeDocuments s2 w2)" by (rule retrieval)
    have a: "ragAccepted s = ragAccepted s3" "rejectionReason s = rejectionReason s3"
      by (simp_all add: retrieval(8) generate_frame)
    have g: "s3 =
       (case fst (generateCompletion env [userMessage (gradePrompt env s)]
                    \<lparr> temperature = Some 0.1, maxTokens = Some 5 \<rparr> (w2 @ [ClockRead])) of
          Inr gradeResult \<Rightarrow>
            s2\<lparr> ragAccepted := Some (includesStr (toLowerCase (trim gradeResult)) (str ''yes'')),
               rejectionReason := (if includesStr (toLowerCase (trim gradeResult)) (str ''yes'')
                                   then [] else str ''Documents not relevant to query''),
               executionSteps := executionSteps s2 @
                 [\<lparr> step = str ''grade_documents'', timestamp = dateNow env w2,
                    details = [(str ''docCount'', JNumber (int (length (retrievedDocs s2))))] \<rparr>] \<rparr>
        | Inl e \<Rightarrow>
            s2\<lparr> ragAccepted := Some False,
               rejectionReason := str ''Error evaluating document relevance'',
               executionSteps := executionSteps s2 @
                 [\<lparr> step = str ''grade_documents'', timestamp = dateNow env w2,
                    details = [(str ''docCount'', JNumber (int (length (retrievedDocs s2))))] \<rparr>] \<rparr>)"
      unfolding s3 p by (rule grade_step_docs [OF docs])
    have w2': "w2 @ [ClockRead] = w @ [ClockRead,
                        CompletionCall [userMessage (analysisPrompt s0)]
                          \<lparr> temperature = Some 0.1, maxTokens = Some 10 \<rparr>,
                        ClockRead,
                        SearchCall (searchQuery s)
                          \<lparr> top_opt = Some 5, queryType = Some (str ''semantic'') \<rparr>,
                        ClockRead]"
      by (simp add: w2)
    show ?thesis
      unfolding a w2' [symmetric] using g
      by (cases "fst (generateCompletion env [userMessage (gradePrompt env s)]
                        \<lparr> temperature = Some 0.1, maxTokens = Some 5 \<rparr> (w2 @ [ClockRead]))")
         (simp_all add: yes_match)
  qed
  then show ?A and ?B by simp_all
qed

lemma run_finalAnswer:
  assumes "invoke env s0 w = (Inr s, w')"
  shows "finalAnswer s =
     (case fst (generateCompletion env [userMessage (generationPrompt s)]
                  \<lparr> temperature = Some 0.7, maxTokens = Some 2000 \<rparr> (butlast w')) of
        Inr a \<Rightarrow> a
      | Inl e \<Rightarrow> fallbackAnswer)"
proof -
  have *: "finalAnswer (fst (stepNode env Generate t v)) =
     (case fst (generateCompletion env
                  [userMessage (generationPrompt (fst (stepNode env Generate t v)))]
                  \<lparr> temperature = Some 0.7, maxTokens = Some 2000 \<rparr>
                  (butlast (snd (stepNode env Generate t v)))) of
        Inr a \<Rightarrow> a
      | Inl e \<Rightarrow> fallbackAnswer)" for t v
  proof -
    have "generationPrompt (fst (stepNode env Generate t v)) = generationPrompt t"
      by (rule prompt_cong) (simp_all add: generate_frame)
    moreover have "butlast (snd (stepNode env Generate t v)) = v @ [ClockRead]"
      by (simp add: generate_world butlast_append)
    ultimately show ?thesis by (simp add: generate_step)
  qed
  from assms show ?thesis
    by (cases rule: invoke_cases) (simp_all only: *)
qed

lemma run_steps:
  assumes "invoke env s0 w = (Inr s, w')"
  shows "map step (executionSteps s) = map step (executionSteps s0) @
     (if needsRAG s = Some True
      then [str ''agent_analysis'', str ''retrieval'', str ''grade_documents'', str ''generate'']
      else [str ''agent_analysis'', str ''generate''])"
  using assms
  by (cases rule: invoke_cases)
     (simp_all add: step_appends_one generate_frame grade_frame retrieve_frame)

section \<open>The test doubles at work\<close>

lemma mock_completion:
  "fst (generateCompletion (mockEnvironment a g f sr) msgs
          \<lparr> temperature = t, maxTokens = Some n \<rparr> w) =
     (case (if n = 10 then a else if n = 5 then g else f) of
        Inl e \<Rightarrow> Inl (Error (str ''Completion generation failed: '' @ message e))
      | Inr c \<Rightarrow> Inr (orElse c (str ''No response generated'')))"
  by (simp add: generateCompletion_def mockEnvironment_def Let_def split: sum.splits)

lemma mock_search:
  "fst (searchDocuments (mockEnvironment a g f sr) q opts w) =
     (case sr of
        Inl e \<Rightarrow> Inl (Error (str ''Document search failed: '' @ message e))
      | Inr r \<Rightarrow> Inr \<lparr> results = results r,
                       count = Some (case count r of None \<Rightarrow> length (results r)
                                     | Some c \<Rightarrow> if c = 0 then length (results r) else c) \<rparr>)"
  by (simp add: searchDocuments_def mockEnvironment_def Let_def split: sum.splits)

lemma initialState_fields:
  "userQuery (initialState env q opts w) = q"
  "needsRAG (initialState env q opts w) = None"
  "searchQuery (initialState env q opts w) = []"
  "retrievedDocs (initialState env q opts w) = []"
  "ragAccepted (initialState env q opts w) = None"
  "rejectionReason (initialState env q opts w) = []"
  "finalAnswer (initialState env q opts w) = []"
  "executionSteps (initialState env q opts w) = []"
  "retryCount (initialState env q opts w) = 0"
  "sessionId (initialState env q opts w) = uuidv4 env w"
  by (simp_all add: initialState_def)

lemma retrieve_word: "containsIgnoringCase (map dotlessToI (str ''RETRIEVE'')) (str ''RETRIEVE'')"
  by (simp add: str_def sameLetter_def foldCase_def dotlessToI_def)

lemma generate_word: "\<not> containsIgnoringCase (map dotlessToI (str ''GENERATE'')) (str ''RETRIEVE'')"
  by (simp add: str_def sameLetter_def foldCase_def dotlessToI_def)

lemma yes_word: "containsIgnoringCase (str ''Yes.'') (str ''yes'')"
  by (simp add: str_def sameLetter_def foldCase_def)

lemma dotless_word:
  "containsIgnoringCase (map dotlessToI dotlessReply) (str ''RETRIEVE'')"
  "\<not> containsIgnoringCase dotlessReply (str ''RETRIEVE'')"
  by (simp_all add: dotlessReply_def str_def dotlessToI_def sameLetter_def foldCase_def)

declare containsIgnoringCase.simps [simp del] includesStr.simps [simp del]

lemma scenarioA:
  assumes "invoke (mockEnvironment (Inr (Some (str ''GENERATE''))) g f sr) s0 w = (Inr s, w')"
  shows "needsRAG s = Some False"
  using run_needsRAG [OF assms] by (simp add: mock_completion orElse_def generate_word)

lemma scenarioB:
  assumes "invoke (mockEnvironment (Inr (Some (str ''RETRIEVE''))) g f (Inr \<lparr> results = [], count = None \<rparr>))
             s0 w = (Inr s, w')"
  shows "needsRAG s = Some True" "retrievedDocs s = []"
proof -
  show n: "needsRAG s = Some True"
    using run_needsRAG [OF assms] by (simp add: mock_completion orElse_def retrieve_word)
  show "retrievedDocs s = []"
    using run_retrievedDocs [OF assms n] by (simp add: mock_search)
qed

lemma scenarioC:
  assumes "invoke (mockEnvironment (Inr (Some (str ''RETRIEVE''))) (Inr (Some (str ''Yes.''))) f
                     (Inr \<lparr> results = [mockHit], count = None \<rparr>))
             s0 w = (Inr s, w')"
  shows "needsRAG s = Some True" "retrievedDocs s = [toRetrievedDoc mockHit]"
    "ragAccepted s = Some True"
proof -
  show n: "needsRAG s = Some True"
    using run_needsRAG [OF assms] by (simp add: mock_completion orElse_def retrieve_word)
  show d: "retrievedDocs s = [toRetrievedDoc mockHit]"
    using run_retrievedDocs [OF assms n] by (simp add: mock_search)
  show "ragAccepted s = Some True"
    using run_graded_docs(1) [OF assms n] d by (simp add: mock_completion orElse_def yes_word)
qed

lemma mock_all_fail:
  "isl (fst (generateCompletion (mockEnvironment (Inl e1) (Inl e2) (Inl e3) sr) msgs copts v))"
  by (simp add: generateCompletion_def mockEnvironment_def Let_def)

section \<open>More on runs\<close>

lemma run_invariants:
  assumes run: "invoke env (initialState env q opts w0) w = (Inr s, w')"
  shows "ragAccepted s = Some True \<Longrightarrow> needsRAG s = Some True \<and> retrievedDocs s \<noteq> []"
    and "needsRAG s \<noteq> Some True \<Longrightarrow> retrievedDocs s = [] \<and> ragAccepted s = None \<and> rejectionReason s = []"
proof -
  show *: "retrievedDocs s = [] \<and> ragAccepted s = None \<and> rejectionReason s = []"
    if "needsRAG s \<noteq> Some True"
    using run_skipped [OF run that] by (simp add: initialState_fields)
  show "needsRAG s = Some True \<and> retrievedDocs s \<noteq> []" if acc: "ragAccepted s = Some True"
  proof -
    have n: "needsRAG s = Some True" using * acc by fastforce
    moreover have "retrievedDocs s \<noteq> []"
      using run_graded_empty(1) [OF run n] acc by fastforce
    ultimately show ?thesis by simp
  qed
qed

lemma run_searchQuery_initial:
  assumes "invoke env (initialState env q opts w0) w = (Inr s, w')"
  shows "searchQuery s = (if needsRAG s = Some True then q else [])"
  using run_needsRAG [OF assms] run_searchQuery [OF assms]
  by (auto simp: initialState_fields split: sum.splits)


section \<open>What the prompts contain\<close>












section \<open>The entry point at work\<close>

lemma execute_workflow:
  assumes "invoke env (initialState env q opts (w @ [ClockRead])) (w @ [ClockRead, UuidDraw]) = (Inr s, w')"
  shows "execute env WORKFLOW q opts w =
     (Inr \<lparr> res_sessionId = sessionId s,
            query = q,
            answer = finalAnswer s,
            explainability =
              \<lparr> ex_executionSteps = executionSteps s,
                decisionPoints =
                  \<lparr> dp_needsRAG = needsRAG s,
                    dp_ragAccepted = ragAccepted s,
                    dp_retryCount = retryCount s \<rparr>,
                retrievalDetails =
                  (if needsRAG s = Some True
                   then Some \<lparr> rt_searchQuery = searchQuery s,
                               documentsFound = DocumentCount (length (retrievedDocs s)),
                               topDocuments =
                                 map (\<lambda>doc. \<lparr> td_score = rd_score doc \<rparr>) (take 3 (retrievedDocs s)) \<rparr>
                   else None),
                ex_rejectionReason = Some (rejectionReason s) \<rparr>,
            metadata =
              \<lparr> executionTimeMs = dateNow env w' - dateNow env w,
                md_timestamp = dateNow env (w' @ [ClockRead]),
                workflowVersion = str ''1.0.0'',
                agentType = str ''workflow'' \<rparr> \<rparr>,
      w' @ [ClockRead, ClockRead])"
  by (simp add: execute_def executeWorkflow_def assms Let_def)


lemma execute_react_cases:
  assumes "execute env REACT q opts w = (Inr r, w')"
  obtains ms where
    "reactAgentInvoke env (w @ [ClockRead, ReactInvoke [userMessage q]]) [userMessage q] = Inr ms"
    "ms \<noteq> []"
    "res_sessionId r = uuidv4 env (w @ [ClockRead, ReactInvoke [userMessage q]])"
    "query r = q" "answer r = lc_content (last ms)"
    "agentType (metadata r) = str ''createReactAgent''"
    "workflowVersion (metadata r) = str ''React-1.0.0''"
    "decisionPoints (explainability r) =
       \<lparr> dp_needsRAG = Some True, dp_ragAccepted = Some True, dp_retryCount = 0 \<rparr>"
    "ex_rejectionReason (explainability r) = None"
    "map step (ex_executionSteps (explainability r)) =
       [str ''tool_search_documents'', str ''tool_evaluate_documents'', str ''generate'']"
    "retrievalDetails (explainability r) =
       Some \<lparr> rt_searchQuery = toolArguments q, documentsFound = DocumentText (str ''Variable''),
              topDocuments = [] \<rparr>"
    "w' = w @ [ClockRead, ReactInvoke [userMessage q], UuidDraw,
               ClockRead, ClockRead, ClockRead, ClockRead, ClockRead]"
  using assms
  by (auto simp: execute_def executeReact_def Let_def split: sum.splits if_splits)

lemma execute_react_returns:
  assumes "reactAgentInvoke env (w @ [ClockRead, ReactInvoke [userMessage q]]) [userMessage q] = Inr ms"
    and "ms \<noteq> []"
  shows "\<exists>r w'. execute env REACT q opts w = (Inr r, w')"
  using assms by (simp add: execute_def executeReact_def Let_def)

section \<open>Claims\<close>

text \<open>
  C1 (as amended). In every run of the workflow in which retrieval was triggered and the
  Retrieve stage left no documents, the Grade stage sets \<open>ragAccepted\<close> to false, sets
  \<open>rejectionReason\<close> to the text \<open>No documents retrieved\<close> (capital N), and makes
  no call of the completion service: between the search call and the call of the Generate
  stage the trace holds only the clock readings of the two stages' step entries. This holds
  whatever the completion service would have answered. The specification writes the reason
  in lower case, which is not the text the code stores.
\<close>

theorem zero_documents_rejected:
  "\<exists>s w'. invoke env (initialState env q opts w0) w = (Inr s, w') \<and>
     (needsRAG s = Some True \<and> retrievedDocs s = [] \<longrightarrow>
        ragAccepted s = Some False \<and>
        rejectionReason s = str ''No documents retrieved'' \<and>
        w' = w @ [ClockRead,
                  CompletionCall [userMessage (analysisPrompt s)]
                    \<lparr> temperature = Some 0.1, maxTokens = Some 10 \<rparr>,
                  ClockRead,
                  SearchCall q \<lparr> top_opt = Some 5, queryType = Some (str ''semantic'') \<rparr>,
                  ClockRead,
                  ClockRead,
                  CompletionCall [userMessage (generationPrompt s)]
                    \<lparr> temperature = Some 0.7, maxTokens = Some 2000 \<rparr>])"
proof -
  obtain s w' where run: "invoke env (initialState env q opts w0) w = (Inr s, w')"
    using invoke_returns by blast
  have "w' = w @ runTrace env s" by (rule invoke_trace [OF run])
  moreover have "searchQuery s = q" if "needsRAG s = Some True"
    using that run_needsRAG [OF run] run_searchQuery [OF run]
    by (auto simp: initialState_fields split: sum.splits)
  ultimately show ?thesis
    using run run_graded_empty [OF run] by (auto simp: runTrace_def)
qed

theorem zero_documents_rejected_witness:
  "\<exists>s w'. invoke (mockEnvironment (Inr (Some (str ''RETRIEVE''))) (Inr (Some (str ''yes''))) (Inr (Some (str ''answer'')))
                     (Inr \<lparr> results = [], count = None \<rparr>))
             (initialState (mockEnvironment (Inr (Some (str ''RETRIEVE''))) (Inr (Some (str ''yes'')))
                              (Inr (Some (str ''answer''))) (Inr \<lparr> results = [], count = None \<rparr>))
                (str ''Generate Adobe's brand guidelines summary'') noOptions []) [] = (Inr s, w') \<and>
     needsRAG s = Some True \<and> retrievedDocs s = [] \<and>
     ragAccepted s = Some False \<and> rejectionReason s = str ''No documents retrieved'' \<and>
     length w' = 7"
  using zero_documents_rejected
    [of "mockEnvironment (Inr (Some (str ''RETRIEVE''))) (Inr (Some (str ''yes''))) (Inr (Some (str ''answer'')))
           (Inr \<lparr> results = [], count = None \<rparr>)"
        "(str ''Generate Adobe's brand guidelines summary'')" noOptions "[]" "[]"]
  by (auto dest: scenarioB)

theorem zero_documents_reason_counterexample:
  "\<not> isl (fst (invoke (mockEnvironment (Inr (Some (str ''RETRIEVE''))) (Inr (Some (str ''yes''))) (Inr (Some (str ''answer'')))
                     (Inr \<lparr> results = [], count = None \<rparr>))
             (initialState (mockEnvironment (Inr (Some (str ''RETRIEVE''))) (Inr (Some (str ''yes'')))
                              (Inr (Some (str ''answer''))) (Inr \<lparr> results = [], count = None \<rparr>))
                (str ''Generate Adobe's brand guidelines summary'') noOptions []) [])) \<and>
   needsRAG (projr (fst (invoke (mockEnvironment (Inr (Some (str ''RETRIEVE''))) (Inr (Some (str ''yes''))) (Inr (Some (str ''answer'')))
                     (Inr \<lparr> results = [], count = None \<rparr>))
             (initialState (mockEnvironment (Inr (Some (str ''RETRIEVE''))) (Inr (Some (str ''yes'')))
                              (Inr (Some (str ''answer''))) (Inr \<lparr> results = [], count = None \<rparr>))
                (str ''Generate Adobe's brand guidelines summary'') noOptions []) []))) = Some True \<and>
   retrievedDocs (projr (fst (invoke (mockEnvironment (Inr (Some (str ''RETRIEVE''))) (Inr (Some (str ''yes''))) (Inr (Some (str ''answer'')))
                     (Inr \<lparr> results = [], count = None \<rparr>))
             (initialState (mockEnvironment (Inr (Some (str ''RETRIEVE''))) (Inr (Some (str ''yes'')))
                              (Inr (Some (str ''answer''))) (Inr \<lparr> results = [], count = None \<rparr>))
                (str ''Generate Adobe's brand guidelines summary'') noOptions []) []))) = [] \<and>
   rejectionReason (projr (fst (invoke (mockEnvironment (Inr (Some (str ''RETRIEVE''))) (Inr (Some (str ''yes''))) (Inr (Some (str ''answer'')))
                     (Inr \<lparr> results = [], count = None \<rparr>))
             (initialState (mockEnvironment (Inr (Some (str ''RETRIEVE''))) (Inr (Some (str ''yes'')))
                              (Inr (Some (str ''answer''))) (Inr \<lparr> results = [], count = None \<rparr>))
                (str ''Generate Adobe's brand guidelines summary'') noOptions []) []))) \<noteq> str ''no documents retrieved''"
proof -
  obtain s w' where run:
    "invoke (mockEnvironment (Inr (Some (str ''RETRIEVE''))) (Inr (Some (str ''yes''))) (Inr (Some (str ''answer'')))
                     (Inr \<lparr> results = [], count = None \<rparr>))
             (initialState (mockEnvironment (Inr (Some (str ''RETRIEVE''))) (Inr (Some (str ''yes'')))
                              (Inr (Some (str ''answer''))) (Inr \<lparr> results = [], count = None \<rparr>))
                (str ''Generate Adobe's brand guidelines summary'') noOptions []) [] = (Inr s, w')"
    using invoke_returns by blast
  from scenarioB [OF run] run_graded_empty [OF run] show ?thesis
    by (simp add: run)
qed




text \<open>
  C3. Whatever the completion client and the search client do, fail or answer, on any call,
  a run of the workflow returns a state and \<open>execute\<close> returns a result: nothing is thrown. If
  the completion call of the Analyze stage fails, the decision is not to retrieve. If the
  Retrieve stage runs and its search fails, the documents are the empty list. If the
  completion call of the Generate stage fails, the answer is the fixed apology. If the
  completion service fails on every call, the result's answer is the fixed apology and its
  \<open>needsRAG\<close> is false.
\<close>

theorem failures_absorbed:
  "\<exists>s w' r wr.
     invoke env (initialState env q opts w0) w = (Inr s, w') \<and>
     execute env WORKFLOW q opts w = (Inr r, wr) \<and>
     (isl (fst (generateCompletion env
                  [userMessage (analysisPrompt (initialState env q opts w0))]
                  \<lparr> temperature = Some 0.1, maxTokens = Some 10 \<rparr> (w @ [ClockRead])))
        \<longrightarrow> needsRAG s = Some False) \<and>
     (needsRAG s = Some True \<and>
      isl (fst (searchDocuments env q \<lparr> top_opt = Some 5, queryType = Some (str ''semantic'') \<rparr>
                  (w @ [ClockRead,
                        CompletionCall [userMessage (analysisPrompt (initialState env q opts w0))]
                          \<lparr> temperature = Some 0.1, maxTokens = Some 10 \<rparr>,
                        ClockRead])))
        \<longrightarrow> retrievedDocs s = []) \<and>
     (isl (fst (generateCompletion env [userMessage (generationPrompt s)]
                  \<lparr> temperature = Some 0.7, maxTokens = Some 2000 \<rparr> (butlast w')))
        \<longrightarrow> finalAnswer s =
              str ''I apologize, but I encountered an error while generating the response.'') \<and>
     ((\<forall>msgs copts v. isl (fst (generateCompletion env msgs copts v)))
        \<longrightarrow> answer r = str ''I apologize, but I encountered an error while generating the response.''
            \<and> dp_needsRAG (decisionPoints (explainability r)) = Some False)"
proof -
  obtain s w' where run: "invoke env (initialState env q opts w0) w = (Inr s, w')"
    using invoke_returns by blast
  obtain t v where run2:
    "invoke env (initialState env q opts (w @ [ClockRead])) (w @ [ClockRead, UuidDraw]) = (Inr t, v)"
    using invoke_returns by blast
  have a: "needsRAG s = Some False"
    if "isl (fst (generateCompletion env
                  [userMessage (analysisPrompt (initialState env q opts w0))]
                  \<lparr> temperature = Some 0.1, maxTokens = Some 10 \<rparr> (w @ [ClockRead])))"
    using that run_needsRAG [OF run] by (auto simp: isl_def)
  have b: "retrievedDocs s = []"
    if "needsRAG s = Some True"
      "isl (fst (searchDocuments env q \<lparr> top_opt = Some 5, queryType = Some (str ''semantic'') \<rparr>
                  (w @ [ClockRead,
                        CompletionCall [userMessage (analysisPrompt (initialState env q opts w0))]
                          \<lparr> temperature = Some 0.1, maxTokens = Some 10 \<rparr>,
                        ClockRead])))"
  proof -
    have "searchQuery s = q"
      using that(1) run_needsRAG [OF run] run_searchQuery [OF run]
      by (auto simp: initialState_fields split: sum.splits)
    with that run_retrievedDocs [OF run that(1)] show ?thesis by (auto simp: isl_def)
  qed
  have c: "finalAnswer s = str ''I apologize, but I encountered an error while generating the response.''"
    if "isl (fst (generateCompletion env [userMessage (generationPrompt s)]
                  \<lparr> temperature = Some 0.7, maxTokens = Some 2000 \<rparr> (butlast w')))"
    using that run_finalAnswer [OF run] by (auto simp: isl_def fallbackAnswer_def)
  have d: "finalAnswer t = str ''I apologize, but I encountered an error while generating the response.''
       \<and> needsRAG t = Some False"
    if all: "\<forall>msgs copts v. isl (fst (generateCompletion env msgs copts v))"
  proof -
    from all have "isl (fst (generateCompletion env
                  [userMessage (analysisPrompt (initialState env q opts (w @ [ClockRead])))]
                  \<lparr> temperature = Some 0.1, maxTokens = Some 10 \<rparr>
                  ((w @ [ClockRead, UuidDraw]) @ [ClockRead])))"
      by blast
    with run_needsRAG [OF run2] have "needsRAG t = Some False" by (auto simp: isl_def)
    moreover from all have "isl (fst (generateCompletion env [userMessage (generationPrompt t)]
                  \<lparr> temperature = Some 0.7, maxTokens = Some 2000 \<rparr> (butlast v)))"
      by blast
    with run_finalAnswer [OF run2]
    have "finalAnswer t = str ''I apologize, but I encountered an error while generating the response.''"
      by (auto simp: isl_def fallbackAnswer_def)
    ultimately show ?thesis by simp
  qed
  show ?thesis
    apply (rule exI [of _ s], rule exI [of _ w'])
    apply (subst execute_workflow [OF run2])
    using run a b c d apply auto
    done
qed

theorem failures_absorbed_witness:
  "(\<exists>r w'. execute (mockEnvironment (Inl (Error (str ''unreachable''))) (Inl (Error (str ''unreachable'')))
                       (Inl (Error (str ''unreachable''))) (Inr \<lparr> results = [mockHit], count = None \<rparr>))
               WORKFLOW (str ''Generate Adobe's brand guidelines summary'') noOptions [] = (Inr r, w') \<and>
      answer r = str ''I apologize, but I encountered an error while generating the response.'' \<and>
      dp_needsRAG (decisionPoints (explainability r)) = Some False) \<and>
   (\<exists>s w'. invoke (mockEnvironment (Inr (Some (str ''RETRIEVE''))) (Inr (Some (str ''yes'')))
                      (Inl (Error (str ''unreachable''))) (Inl (Error (str ''index offline''))))
              (initialState (mockEnvironment (Inr (Some (str ''RETRIEVE''))) (Inr (Some (str ''yes'')))
                               (Inl (Error (str ''unreachable''))) (Inl (Error (str ''index offline''))))
                 (str ''Generate Adobe's brand guidelines summary'') noOptions []) [] = (Inr s, w') \<and>
      needsRAG s = Some True \<and> retrievedDocs s = [] \<and>
      finalAnswer s = str ''I apologize, but I encountered an error while generating the response.'')"
proof
  let ?env = "mockEnvironment (Inl (Error (str ''unreachable''))) (Inl (Error (str ''unreachable'')))
                (Inl (Error (str ''unreachable''))) (Inr \<lparr> results = [mockHit], count = None \<rparr>)"
  let ?q = "(str ''Generate Adobe's brand guidelines summary'')"
  from failures_absorbed [of ?env ?q noOptions "[]" "[]"]
  obtain r wr where run: "execute ?env WORKFLOW ?q noOptions [] = (Inr r, wr)"
    and c: "(\<forall>msgs copts v. isl (fst (generateCompletion ?env msgs copts v)))
        \<longrightarrow> answer r = str ''I apologize, but I encountered an error while generating the response.''
            \<and> dp_needsRAG (decisionPoints (explainability r)) = Some False"
    by blast
  from c mock_all_fail
  have "answer r = str ''I apologize, but I encountered an error while generating the response.''"
    and "dp_needsRAG (decisionPoints (explainability r)) = Some False"
    by blast+
  with run show "\<exists>r w'. execute ?env WORKFLOW ?q noOptions [] = (Inr r, w') \<and>
      answer r = str ''I apologize, but I encountered an error while generating the response.'' \<and>
      dp_needsRAG (decisionPoints (explainability r)) = Some False"
    by (intro exI [of _ r] exI [of _ wr]) simp
next
  let ?env = "mockEnvironment (Inr (Some (str ''RETRIEVE''))) (Inr (Some (str ''yes'')))
                (Inl (Error (str ''unreachable''))) (Inl (Error (str ''index offline'')))"
  let ?q = "(str ''Generate Adobe's brand guidelines summary'')"
  from failures_absorbed [of ?env ?q noOptions "[]" "[]"]
  obtain s w' where run: "invoke ?env (initialState ?env ?q noOptions []) [] = (Inr s, w')"
    and b: "needsRAG s = Some True \<and>
      isl (fst (searchDocuments ?env ?q \<lparr> top_opt = Some 5, queryType = Some (str ''semantic'') \<rparr>
                  ([] @ [ClockRead,
                        CompletionCall [userMessage (analysisPrompt (initialState ?env ?q noOptions []))]
                          \<lparr> temperature = Some 0.1, maxTokens = Some 10 \<rparr>,
                        ClockRead])))
        \<longrightarrow> retrievedDocs s = []"
    and c: "isl (fst (generateCompletion ?env [userMessage (generationPrompt s)]
                  \<lparr> temperature = Some 0.7, maxTokens = Some 2000 \<rparr> (butlast w')))
        \<longrightarrow> finalAnswer s =
              str ''I apologize, but I encountered an error while generating the response.''"
    by blast
  have n: "needsRAG s = Some True"
    using run_needsRAG [OF run] by (simp add: mock_completion orElse_def retrieve_word)
  from b n have d: "retrievedDocs s = []" by (simp add: mock_search)
  from c have f: "finalAnswer s =
      str ''I apologize, but I encountered an error while generating the response.''"
    by (simp add: mock_completion)
  from run n d f
  show "\<exists>s w'. invoke ?env (initialState ?env ?q noOptions []) [] = (Inr s, w') \<and>
      needsRAG s = Some True \<and> retrievedDocs s = [] \<and>
      finalAnswer s = str ''I apologize, but I encountered an error while generating the response.''"
    by (intro exI [of _ s] exI [of _ w']) simp
qed

text \<open>
  C4. The state a run of the workflow ends in satisfies: if \<open>ragAccepted\<close> is true then the
  retrieved documents are not empty; if \<open>needsRAG\<close> is false then the retrieved documents are
  empty and \<open>ragAccepted\<close> is still unset. In the result of \<open>execute\<close>, a decision summary
  with \<open>needsRAG\<close> false has \<open>ragAccepted\<close> unset and no retrieval details, and one with
  \<open>ragAccepted\<close> true reports a document count other than zero.
\<close>

theorem state_invariants:
  "\<exists>s w' r wr. invoke env (initialState env q opts w0) w = (Inr s, w') \<and>
     (ragAccepted s = Some True \<longrightarrow> retrievedDocs s \<noteq> []) \<and>
     (needsRAG s = Some False \<longrightarrow> retrievedDocs s = [] \<and> ragAccepted s = None) \<and>
     execute env WORKFLOW q opts w = (Inr r, wr) \<and>
     (dp_needsRAG (decisionPoints (explainability r)) = Some False \<longrightarrow>
        dp_ragAccepted (decisionPoints (explainability r)) = None \<and>
        retrievalDetails (explainability r) = None) \<and>
     (dp_ragAccepted (decisionPoints (explainability r)) = Some True \<longrightarrow>
        (\<exists>d. retrievalDetails (explainability r) = Some d \<and> documentsFound d \<noteq> DocumentCount 0))"
proof -
  obtain s w' where run: "invoke env (initialState env q opts w0) w = (Inr s, w')"
    using invoke_returns by blast
  obtain t v where run2:
    "invoke env (initialState env q opts (w @ [ClockRead])) (w @ [ClockRead, UuidDraw]) = (Inr t, v)"
    using invoke_returns by blast
  note inv = run_invariants [OF run] and inv2 = run_invariants [OF run2]
  show ?thesis
    apply (rule exI [of _ s], rule exI [of _ w'])
    apply (subst execute_workflow [OF run2])
    using run inv inv2 apply auto
    done
qed

theorem state_invariants_witness:
  "(\<exists>s w'. invoke (mockEnvironment (Inr (Some (str ''RETRIEVE''))) (Inr (Some (str ''Yes.'')))
                     (Inr (Some (str ''answer''))) (Inr \<lparr> results = [mockHit], count = None \<rparr>))
             (initialState (mockEnvironment (Inr (Some (str ''RETRIEVE''))) (Inr (Some (str ''Yes.'')))
                              (Inr (Some (str ''answer''))) (Inr \<lparr> results = [mockHit], count = None \<rparr>))
                (str ''Generate Adobe's brand guidelines summary'') noOptions []) [] = (Inr s, w') \<and>
      ragAccepted s = Some True \<and> retrievedDocs s \<noteq> []) \<and>
   (\<exists>s w'. invoke (mockEnvironment (Inr (Some (str ''GENERATE''))) (Inr (Some (str ''yes'')))
                     (Inr (Some (str ''answer''))) (Inr \<lparr> results = [mockHit], count = None \<rparr>))
             (initialState (mockEnvironment (Inr (Some (str ''GENERATE''))) (Inr (Some (str ''yes'')))
                              (Inr (Some (str ''answer''))) (Inr \<lparr> results = [mockHit], count = None \<rparr>))
                (str ''Explain recursion in computer science'') noOptions []) [] = (Inr s, w') \<and>
      needsRAG s = Some False \<and> retrievedDocs s = [] \<and> ragAccepted s = None)"
proof
  from state_invariants
    [of "mockEnvironment (Inr (Some (str ''RETRIEVE''))) (Inr (Some (str ''Yes.'')))
           (Inr (Some (str ''answer''))) (Inr \<lparr> results = [mockHit], count = None \<rparr>)"
        "(str ''Generate Adobe's brand guidelines summary'')" noOptions "[]" "[]"]
  obtain s w' where run:
    "invoke (mockEnvironment (Inr (Some (str ''RETRIEVE''))) (Inr (Some (str ''Yes.'')))
                     (Inr (Some (str ''answer''))) (Inr \<lparr> results = [mockHit], count = None \<rparr>))
             (initialState (mockEnvironment (Inr (Some (str ''RETRIEVE''))) (Inr (Some (str ''Yes.'')))
                              (Inr (Some (str ''answer''))) (Inr \<lparr> results = [mockHit], count = None \<rparr>))
                (str ''Generate Adobe's brand guidelines summary'') noOptions []) [] = (Inr s, w')"
    and inv: "ragAccepted s = Some True \<longrightarrow> retrievedDocs s \<noteq> []"
    by blast
  from scenarioC(3) [OF run] inv have "ragAccepted s = Some True" "retrievedDocs s \<noteq> []"
    by simp_all
  with run show "\<exists>s w'. invoke (mockEnvironment (Inr (Some (str ''RETRIEVE''))) (Inr (Some (str ''Yes.'')))
                     (Inr (Some (str ''answer''))) (Inr \<lparr> results = [mockHit], count = None \<rparr>))
             (initialState (mockEnvironment (Inr (Some (str ''RETRIEVE''))) (Inr (Some (str ''Yes.'')))
                              (Inr (Some (str ''answer''))) (Inr \<lparr> results = [mockHit], count = None \<rparr>))
                (str ''Generate Adobe's brand guidelines summary'') noOptions []) [] = (Inr s, w') \<and>
      ragAccepted s = Some True \<and> retrievedDocs s \<noteq> []"
    by (intro exI [of _ s] exI [of _ w']) simp
next
  from state_invariants
    [of "mockEnvironment (Inr (Some (str ''GENERATE''))) (Inr (Some (str ''yes'')))
           (Inr (Some (str ''answer''))) (Inr \<lparr> results = [mockHit], count = None \<rparr>)"
        "(str ''Explain recursion in computer science'')" noOptions "[]" "[]"]
  obtain s w' where run:
    "invoke (mockEnvironment (Inr (Some (str ''GENERATE''))) (Inr (Some (str ''yes'')))
                     (Inr (Some (str ''answer''))) (Inr \<lparr> results = [mockHit], count = None \<rparr>))
             (initialState (mockEnvironment (Inr (Some (str ''GENERATE''))) (Inr (Some (str ''yes'')))
                              (Inr (Some (str ''answer''))) (Inr \<lparr> results = [mockHit], count = None \<rparr>))
                (str ''Explain recursion in computer science'') noOptions []) [] = (Inr s, w')"
    and inv: "needsRAG s = Some False \<longrightarrow> retrievedDocs s = [] \<and> ragAccepted s = None"
    by blast
  from scenarioA [OF run] inv
  have "needsRAG s = Some False" "retrievedDocs s = []" "ragAccepted s = None"
    by simp_all
  with run show "\<exists>s w'. invoke (mockEnvironment (Inr (Some (str ''GENERATE''))) (Inr (Some (str ''yes'')))
                     (Inr (Some (str ''answer''))) (Inr \<lparr> results = [mockHit], count = None \<rparr>))
             (initialState (mockEnvironment (Inr (Some (str ''GENERATE''))) (Inr (Some (str ''yes'')))
                              (Inr (Some (str ''answer''))) (Inr \<lparr> results = [mockHit], count = None \<rparr>))
                (str ''Explain recursion in computer science'') noOptions []) [] = (Inr s, w') \<and>
      needsRAG s = Some False \<and> retrievedDocs s = [] \<and> ragAccepted s = None"
    by (intro exI [of _ s] exI [of _ w']) simp
qed

text \<open>
  C5. Each stage, whatever its service call does, appends exactly one entry to
  \<open>executionSteps\<close>, carrying the stage's name, and leaves the earlier entries as they are.
  A run of the workflow ends with exactly the four entries of Analyze, Retrieve, Grade and
  Generate, in this order, when retrieval is triggered, and with exactly the two entries of
  Analyze and Generate when it is not. In the first case the clock is read four times, once
  for each entry; in the second the run consists of the clock reading and the completion
  call of the two stages and nothing else, so Retrieve and Grade did not run at all.
\<close>

theorem execution_steps_of_run:
  "(\<exists>e. executionSteps (fst (stepNode env Agent t v)) = executionSteps t @ [e]
         \<and> step e = str ''agent_analysis'') \<and>
   (\<exists>e. executionSteps (fst (stepNode env Retrieve t v)) = executionSteps t @ [e]
         \<and> step e = str ''retrieval'') \<and>
   (\<exists>e. executionSteps (fst (stepNode env GradeDocuments t v)) = executionSteps t @ [e]
         \<and> step e = str ''grade_documents'') \<and>
   (\<exists>e. executionSteps (fst (stepNode env Generate t v)) = executionSteps t @ [e]
         \<and> step e = str ''generate'') \<and>
   (\<exists>s w'. invoke env (initialState env q opts w0) w = (Inr s, w') \<and>
      (if needsRAG s = Some True
       then map step (executionSteps s) =
              [str ''agent_analysis'', str ''retrieval'', str ''grade_documents'', str ''generate''] \<and>
            length (filter (\<lambda>e. e = ClockRead) (drop (length w) w')) = 4
       else map step (executionSteps s) = [str ''agent_analysis'', str ''generate''] \<and>
            drop (length w) w' =
              [ClockRead,
               CompletionCall [userMessage (analysisPrompt s)]
                 \<lparr> temperature = Some 0.1, maxTokens = Some 10 \<rparr>,
               ClockRead,
               CompletionCall [userMessage (generationPrompt s)]
                 \<lparr> temperature = Some 0.7, maxTokens = Some 2000 \<rparr>]))"
proof -
  have a: "\<exists>e. executionSteps (fst (stepNode env Agent t v)) = executionSteps t @ [e]
         \<and> step e = str ''agent_analysis''"
    by (simp add: agent_step split: sum.splits)
  have b: "\<exists>e. executionSteps (fst (stepNode env Retrieve t v)) = executionSteps t @ [e]
         \<and> step e = str ''retrieval''"
    by (simp add: retrieve_step)
  have c: "\<exists>e. executionSteps (fst (stepNode env GradeDocuments t v)) = executionSteps t @ [e]
         \<and> step e = str ''grade_documents''"
    by (cases "retrievedDocs t = []")
       (simp_all add: grade_step_empty grade_step_docs split: sum.splits)
  have d: "\<exists>e. executionSteps (fst (stepNode env Generate t v)) = executionSteps t @ [e]
         \<and> step e = str ''generate''"
    by (simp add: generate_step)
  obtain s w' where run: "invoke env (initialState env q opts w0) w = (Inr s, w')"
    using invoke_returns by blast
  have tr: "w' = w @ runTrace env s" by (rule invoke_trace [OF run])
  have "if needsRAG s = Some True
       then map step (executionSteps s) =
              [str ''agent_analysis'', str ''retrieval'', str ''grade_documents'', str ''generate''] \<and>
            length (filter (\<lambda>e. e = ClockRead) (drop (length w) w')) = 4
       else map step (executionSteps s) = [str ''agent_analysis'', str ''generate''] \<and>
            drop (length w) w' =
              [ClockRead,
               CompletionCall [userMessage (analysisPrompt s)]
                 \<lparr> temperature = Some 0.1, maxTokens = Some 10 \<rparr>,
               ClockRead,
               CompletionCall [userMessage (generationPrompt s)]
                 \<lparr> temperature = Some 0.7, maxTokens = Some 2000 \<rparr>]"
    using run_steps [OF run] by (simp add: tr runTrace_def initialState_fields)
  with run a b c d show ?thesis by blast
qed

theorem execution_steps_of_run_witness:
  "\<exists>s w'. invoke (mockEnvironment (Inr (Some (str ''GENERATE''))) (Inr (Some (str ''yes'')))
                     (Inr (Some (str ''answer''))) (Inr \<lparr> results = [], count = None \<rparr>))
             (initialState (mockEnvironment (Inr (Some (str ''GENERATE''))) (Inr (Some (str ''yes'')))
                              (Inr (Some (str ''answer''))) (Inr \<lparr> results = [], count = None \<rparr>))
                (str ''Explain recursion in computer science'') noOptions []) [] = (Inr s, w') \<and>
     needsRAG s = Some False \<and>
     map step (executionSteps s) = [str ''agent_analysis'', str ''generate''] \<and> length w' = 4"
proof -
  from execution_steps_of_run
    [of "mockEnvironment (Inr (Some (str ''GENERATE''))) (Inr (Some (str ''yes'')))
           (Inr (Some (str ''answer''))) (Inr \<lparr> results = [], count = None \<rparr>)"
        undefined "[]" "(str ''Explain recursion in computer science'')" noOptions "[]" "[]"]
  obtain s w' where run:
    "invoke (mockEnvironment (Inr (Some (str ''GENERATE''))) (Inr (Some (str ''yes'')))
                     (Inr (Some (str ''answer''))) (Inr \<lparr> results = [], count = None \<rparr>))
             (initialState (mockEnvironment (Inr (Some (str ''GENERATE''))) (Inr (Some (str ''yes'')))
                              (Inr (Some (str ''answer''))) (Inr \<lparr> results = [], count = None \<rparr>))
                (str ''Explain recursion in computer science'') noOptions []) [] = (Inr s, w')"
    and steps: "if needsRAG s = Some True
       then map step (executionSteps s) =
              [str ''agent_analysis'', str ''retrieval'', str ''grade_documents'', str ''generate''] \<and>
            length (filter (\<lambda>e. e = ClockRead) (drop (length ([] :: world)) w')) = 4
       else map step (executionSteps s) = [str ''agent_analysis'', str ''generate''] \<and>
            drop (length ([] :: world)) w' =
              [ClockRead,
               CompletionCall [userMessage (analysisPrompt s)]
                 \<lparr> temperature = Some 0.1, maxTokens = Some 10 \<rparr>,
               ClockRead,
               CompletionCall [userMessage (generationPrompt s)]
                 \<lparr> temperature = Some 0.7, maxTokens = Some 2000 \<rparr>]"
    by blast
  from scenarioA [OF run] have n: "needsRAG s = Some False" .
  with steps have "map step (executionSteps s) = [str ''agent_analysis'', str ''generate'']"
    and "length w' = 4" by simp_all
  with run n show ?thesis
    by (intro exI [of _ s] exI [of _ w']) simp
qed

text \<open>
  C6 (as amended). In a run of the workflow the Analyze stage is followed by the Retrieve
  stage exactly when the completion service answered the stage's call and its reply
  contains the word RETRIEVE up to the case of the letters, a dotless i (U+0131), which
  \<open>toUpperCase\<close> turns into I, counting as an I as well; after any other reply, and after a
  failed call, it is followed by the Generate stage. This is the value \<open>needsRAG\<close> ends
  with, the edge out of the Analyze stage follows it, and the run shows it: with retrieval
  the stages are Analyze, Retrieve, Grade, Generate and the search service is asked the
  user's query, without it they are Analyze, Generate and the search service is not
  called. \<open>searchQuery\<close> ends as the user's query when retrieval is triggered and as the
  empty string otherwise. The specification's plain case-insensitive match is not what the
  code computes: a reply spelt with the dotless i does not contain RETRIEVE in any letter
  case, and the code retrieves on it.
\<close>

theorem analyze_decision:
  "\<exists>s w'. invoke env (initialState env q opts w0) w = (Inr s, w') \<and>
     needsRAG s =
       Some (case fst (generateCompletion env
                         [userMessage (analysisPrompt (initialState env q opts w0))]
                         \<lparr> temperature = Some 0.1, maxTokens = Some 10 \<rparr> (w @ [ClockRead])) of
               Inr reply \<Rightarrow> containsIgnoringCase (map dotlessToI reply) (str ''RETRIEVE'')
             | Inl e \<Rightarrow> False) \<and>
     needsRAG s = needsRAG (fst (stepNode env Agent (initialState env q opts w0) w)) \<and>
     edges Agent (fst (stepNode env Agent (initialState env q opts w0) w)) =
       Some (Node (if needsRAG s = Some True then Retrieve else Generate)) \<and>
     searchQuery s = (if needsRAG s = Some True then q else []) \<and>
     map step (executionSteps s) =
       (if needsRAG s = Some True
        then [str ''agent_analysis'', str ''retrieval'', str ''grade_documents'', str ''generate'']
        else [str ''agent_analysis'', str ''generate'']) \<and>
     w' = w @ [ClockRead,
               CompletionCall [userMessage (analysisPrompt (initialState env q opts w0))]
                 \<lparr> temperature = Some 0.1, maxTokens = Some 10 \<rparr>]
            @ (if needsRAG s = Some True
               then [ClockRead,
                     SearchCall q \<lparr> top_opt = Some 5, queryType = Some (str ''semantic'') \<rparr>,
                     ClockRead]
                    @ (if retrievedDocs s = [] then []
                       else [CompletionCall [userMessage (gradePrompt env s)]
                               \<lparr> temperature = Some 0.1, maxTokens = Some 5 \<rparr>])
               else [])
            @ [ClockRead,
               CompletionCall [userMessage (generationPrompt s)]
                 \<lparr> temperature = Some 0.7, maxTokens = Some 2000 \<rparr>]"
proof -
  obtain s w' where run: "invoke env (initialState env q opts w0) w = (Inr s, w')"
    using invoke_returns by blast
  have n: "needsRAG s = needsRAG (fst (stepNode env Agent (initialState env q opts w0) w))"
    using run_needsRAG [OF run] by (simp add: agent_needsRAG)
  have e: "edges Agent (fst (stepNode env Agent (initialState env q opts w0) w)) =
       Some (Node (if needsRAG s = Some True then Retrieve else Generate))"
    unfolding n by (simp add: decideToRetrieve_def)
  have sq: "searchQuery s = (if needsRAG s = Some True then q else [])"
    by (rule run_searchQuery_initial [OF run])
  have st: "map step (executionSteps s) =
       (if needsRAG s = Some True
        then [str ''agent_analysis'', str ''retrieval'', str ''grade_documents'', str ''generate'']
        else [str ''agent_analysis'', str ''generate''])"
    using run_steps [OF run] by (simp add: initialState_fields)
  have uq: "userQuery s = q" using run_frame(1) [OF run] by (simp add: initialState_fields)
  have ap: "analysisPrompt (initialState env q opts w0) = analysisPrompt s"
    by (rule prompt_cong) (simp add: uq initialState_fields)
  have tr: "w' = w @ [ClockRead,
               CompletionCall [userMessage (analysisPrompt (initialState env q opts w0))]
                 \<lparr> temperature = Some 0.1, maxTokens = Some 10 \<rparr>]
            @ (if needsRAG s = Some True
               then [ClockRead,
                     SearchCall q \<lparr> top_opt = Some 5, queryType = Some (str ''semantic'') \<rparr>,
                     ClockRead]
                    @ (if retrievedDocs s = [] then []
                       else [CompletionCall [userMessage (gradePrompt env s)]
                               \<lparr> temperature = Some 0.1, maxTokens = Some 5 \<rparr>])
               else [])
            @ [ClockRead,
               CompletionCall [userMessage (generationPrompt s)]
                 \<lparr> temperature = Some 0.7, maxTokens = Some 2000 \<rparr>]"
    using invoke_trace [OF run] sq by (simp add: runTrace_def ap)
  from run run_needsRAG [OF run] n e sq st tr show ?thesis
    by (intro exI [of _ s] exI [of _ w'] conjI)
qed

theorem analyze_decision_witness:
  "\<exists>s w'. invoke (mockEnvironment (Inr (Some (str ''RETRIEVE''))) (Inr (Some (str ''Yes.'')))
                     (Inr (Some (str ''answer''))) (Inr \<lparr> results = [mockHit], count = None \<rparr>))
             (initialState (mockEnvironment (Inr (Some (str ''RETRIEVE''))) (Inr (Some (str ''Yes.'')))
                              (Inr (Some (str ''answer''))) (Inr \<lparr> results = [mockHit], count = None \<rparr>))
                (str ''Generate Adobe's brand guidelines summary'') noOptions []) [] = (Inr s, w') \<and>
      needsRAG s = Some True \<and>
      searchQuery s = str ''Generate Adobe's brand guidelines summary'' \<and>
      map step (executionSteps s) =
        [str ''agent_analysis'', str ''retrieval'', str ''grade_documents'', str ''generate''] \<and>
      length w' = 8"
proof -
  let ?env = "mockEnvironment (Inr (Some (str ''RETRIEVE''))) (Inr (Some (str ''Yes.'')))
                (Inr (Some (str ''answer''))) (Inr \<lparr> results = [mockHit], count = None \<rparr>)"
  let ?q = "str ''Generate Adobe's brand guidelines summary''"
  from analyze_decision [of ?env ?q noOptions "[]" "[]"]
  obtain s w' where run: "invoke ?env (initialState ?env ?q noOptions []) [] = (Inr s, w')"
    and q: "searchQuery s = (if needsRAG s = Some True then ?q else [])"
    and st: "map step (executionSteps s) =
       (if needsRAG s = Some True
        then [str ''agent_analysis'', str ''retrieval'', str ''grade_documents'', str ''generate'']
        else [str ''agent_analysis'', str ''generate''])"
    and tr: "w' = [] @ [ClockRead,
               CompletionCall [userMessage (analysisPrompt (initialState ?env ?q noOptions []))]
                 \<lparr> temperature = Some 0.1, maxTokens = Some 10 \<rparr>]
            @ (if needsRAG s = Some True
               then [ClockRead,
                     SearchCall ?q \<lparr> top_opt = Some 5, queryType = Some (str ''semantic'') \<rparr>,
                     ClockRead]
                    @ (if retrievedDocs s = [] then []
                       else [CompletionCall [userMessage (gradePrompt ?env s)]
                               \<lparr> temperature = Some 0.1, maxTokens = Some 5 \<rparr>])
               else [])
            @ [ClockRead,
               CompletionCall [userMessage (generationPrompt s)]
                 \<lparr> temperature = Some 0.7, maxTokens = Some 2000 \<rparr>]"
    by blast
  have n: "needsRAG s = Some True" and d: "retrievedDocs s = [toRetrievedDoc mockHit]"
    by (rule scenarioC [OF run])+
  from tr n d have "length w' = 8" by simp
  with q st n run show ?thesis
    by (intro exI [of _ s] exI [of _ w']) simp
qed

text \<open>
  The completion service answers the Analyze stage's call with \<open>retr\<close>, a dotless i, \<open>eve\<close>.
  The reply does not contain RETRIEVE in any letter case, and yet the run retrieves: it
  ends with \<open>needsRAG\<close> true, with the user's query as \<open>searchQuery\<close>, and has stepped the
  four stages.
\<close>

theorem analyze_decision_counterexample:
  "\<not> containsIgnoringCase dotlessReply (str ''RETRIEVE'') \<and>
   fst (generateCompletion
          (mockEnvironment (Inr (Some dotlessReply)) (Inr (Some (str ''yes'')))
             (Inr (Some (str ''answer''))) (Inr \<lparr> results = [], count = None \<rparr>))
          [userMessage (analysisPrompt
             (initialState (mockEnvironment (Inr (Some dotlessReply)) (Inr (Some (str ''yes'')))
                              (Inr (Some (str ''answer''))) (Inr \<lparr> results = [], count = None \<rparr>))
                (str ''Explain recursion in computer science'') noOptions []))]
          \<lparr> temperature = Some 0.1, maxTokens = Some 10 \<rparr> [ClockRead]) = Inr dotlessReply \<and>
   \<not> isl (fst (invoke (mockEnvironment (Inr (Some dotlessReply)) (Inr (Some (str ''yes'')))
                        (Inr (Some (str ''answer''))) (Inr \<lparr> results = [], count = None \<rparr>))
             (initialState (mockEnvironment (Inr (Some dotlessReply)) (Inr (Some (str ''yes'')))
                              (Inr (Some (str ''answer''))) (Inr \<lparr> results = [], count = None \<rparr>))
                (str ''Explain recursion in computer science'') noOptions []) [])) \<and>
   needsRAG (projr (fst (invoke (mockEnvironment (Inr (Some dotlessReply)) (Inr (Some (str ''yes'')))
                        (Inr (Some (str ''answer''))) (Inr \<lparr> results = [], count = None \<rparr>))
             (initialState (mockEnvironment (Inr (Some dotlessReply)) (Inr (Some (str ''yes'')))
                              (Inr (Some (str ''answer''))) (Inr \<lparr> results = [], count = None \<rparr>))
                (str ''Explain recursion in computer science'') noOptions []) []))) = Some True \<and>
   searchQuery (projr (fst (invoke (mockEnvironment (Inr (Some dotlessReply)) (Inr (Some (str ''yes'')))
                        (Inr (Some (str ''answer''))) (Inr \<lparr> results = [], count = None \<rparr>))
             (initialState (mockEnvironment (Inr (Some dotlessReply)) (Inr (Some (str ''yes'')))
                              (Inr (Some (str ''answer''))) (Inr \<lparr> results = [], count = None \<rparr>))
                (str ''Explain recursion in computer science'') noOptions []) []))) =
     str ''Explain recursion in computer science'' \<and>
   map step (executionSteps (projr (fst (invoke
             (mockEnvironment (Inr (Some dotlessReply)) (Inr (Some (str ''yes'')))
                        (Inr (Some (str ''answer''))) (Inr \<lparr> results = [], count = None \<rparr>))
             (initialState (mockEnvironment (Inr (Some dotlessReply)) (Inr (Some (str ''yes'')))
                              (Inr (Some (str ''answer''))) (Inr \<lparr> results = [], count = None \<rparr>))
                (str ''Explain recursion in computer science'') noOptions []) [])))) =
     [str ''agent_analysis'', str ''retrieval'', str ''grade_documents'', str ''generate'']"
proof -
  let ?env = "mockEnvironment (Inr (Some dotlessReply)) (Inr (Some (str ''yes'')))
                (Inr (Some (str ''answer''))) (Inr \<lparr> results = [], count = None \<rparr>)"
  let ?q = "str ''Explain recursion in computer science''"
  obtain s w' where run: "invoke ?env (initialState ?env ?q noOptions []) [] = (Inr s, w')"
    using invoke_returns by blast
  have ne: "dotlessReply \<noteq> []" by (simp add: dotlessReply_def)
  have reply: "fst (generateCompletion ?env msgs
                 \<lparr> temperature = Some 0.1, maxTokens = Some 10 \<rparr> v) = Inr dotlessReply" for msgs v
    by (simp add: mock_completion orElse_def ne)
  have n: "needsRAG s = Some True"
    using run_needsRAG [OF run] by (simp add: reply dotless_word)
  have sq: "searchQuery s = ?q"
    using run_searchQuery_initial [OF run] n by simp
  have st: "map step (executionSteps s) =
      [str ''agent_analysis'', str ''retrieval'', str ''grade_documents'', str ''generate'']"
    using run_steps [OF run] n by (simp add: initialState_fields)
  from dotless_word(2) reply n sq st show ?thesis
    by (simp add: run)
qed






text \<open>
  C9. Every run of the workflow, from any state and with any environment, returns a state
  and never the recursion error: the graph has no cycle, a run steps at most 4 stages and
  the engine needs one unit of its limit for each of them and one more to find that nothing
  is left to run. So every limit of 5 or more gives the same result: the 25 that the engine
  applies when \<open>invoke\<close> is called without a limit, as the code does, and the 10 that the code
  names when it compiles the graph. The number of entries a run adds to \<open>executionSteps\<close>,
  one for each stage, is at most 4, below the reference bound of 10. (The calls of the
  outside services are taken to return.)
\<close>

theorem run_terminates_within_limit:
  "\<exists>s w'. invoke env s0 w = (Inr s, w') \<and>
      invokeFrom env (5 + k) (Node Agent) s0 w = (Inr s, w') \<and>
      invokeFrom env recursionLimit (Node Agent) s0 w = (Inr s, w') \<and>
      invokeFrom env defaultRecursionLimit (Node Agent) s0 w = (Inr s, w') \<and>
      length (executionSteps s) \<le> length (executionSteps s0) + 4 \<and>
      length (executionSteps s) - length (executionSteps s0) < recursionLimit"
proof -
  obtain s w' where run: "invoke env s0 w = (Inr s, w')"
    using invoke_returns by blast
  have "length (map step (executionSteps s)) \<le> length (map step (executionSteps s0)) + 4"
    unfolding run_steps [OF run] by simp
  then have l: "length (executionSteps s) \<le> length (executionSteps s0) + 4" by simp
  have e: "invokeFrom env (5 + k) (Node Agent) s0 w = (Inr s, w')" for k
    using run by (simp only: invokeFrom_enough invoke_limit)
  from e [of k] e [of 5] e [of 20] run l show ?thesis
    by (simp add: recursionLimit_def defaultRecursionLimit_def)
qed

theorem run_terminates_within_limit_witness:
  "\<exists>s w'. invokeFrom (mockEnvironment (Inr (Some (str ''RETRIEVE''))) (Inr (Some (str ''Yes.'')))
                         (Inr (Some (str ''answer''))) (Inr \<lparr> results = [mockHit], count = None \<rparr>))
              5 (Node Agent)
              (initialState (mockEnvironment (Inr (Some (str ''RETRIEVE''))) (Inr (Some (str ''Yes.'')))
                               (Inr (Some (str ''answer''))) (Inr \<lparr> results = [mockHit], count = None \<rparr>))
                 (str ''Generate Adobe's brand guidelines summary'') noOptions []) [] = (Inr s, w') \<and>
     length (executionSteps s) \<le> 4"
proof -
  let ?env = "mockEnvironment (Inr (Some (str ''RETRIEVE''))) (Inr (Some (str ''Yes.'')))
                (Inr (Some (str ''answer''))) (Inr \<lparr> results = [mockHit], count = None \<rparr>)"
  let ?q = "str ''Generate Adobe's brand guidelines summary''"
  from run_terminates_within_limit [of ?env "initialState ?env ?q noOptions []" "[]" 0]
  obtain s w' where
    "invokeFrom ?env (5 + 0) (Node Agent) (initialState ?env ?q noOptions []) [] = (Inr s, w')"
    and "length (executionSteps s) \<le> length (executionSteps (initialState ?env ?q noOptions [])) + 4"
    by blast
  then show ?thesis
    by (intro exI [of _ s] exI [of _ w']) (simp add: initialState_fields)
qed

text \<open>
  C10. Whenever \<open>execute\<close> with the tool-loop strategy returns a result, whatever the
  tool loop did, the result's decision points are \<open>needsRAG\<close> true, \<open>ragAccepted\<close> true and
  \<open>retryCount\<close> 0, its rejection reason is \<open>null\<close>, its execution steps are exactly the three
  entries \<open>tool_search_documents\<close>, \<open>tool_evaluate_documents\<close>, \<open>generate\<close>, and the
  documents found are reported as the text \<open>Variable\<close>.
\<close>

theorem react_explainability_fixed:
  assumes "execute env REACT q opts w = (Inr r, w')"
  shows "decisionPoints (explainability r) =
           \<lparr> dp_needsRAG = Some True, dp_ragAccepted = Some True, dp_retryCount = 0 \<rparr> \<and>
         ex_rejectionReason (explainability r) = None \<and>
         map step (ex_executionSteps (explainability r)) =
           [str ''tool_search_documents'', str ''tool_evaluate_documents'', str ''generate''] \<and>
         map_option documentsFound (retrievalDetails (explainability r)) =
           Some (DocumentText (str ''Variable''))"
  using assms by (cases rule: execute_react_cases) simp

theorem react_explainability_fixed_witness:
  "\<exists>r w'. execute (mockEnvironment (Inr (Some (str ''GENERATE''))) (Inr (Some (str ''no'')))
                      (Inr (Some (str ''answer''))) (Inr \<lparr> results = [], count = None \<rparr>))
              REACT (str ''Explain recursion in computer science'') noOptions [] = (Inr r, w') \<and>
     decisionPoints (explainability r) =
       \<lparr> dp_needsRAG = Some True, dp_ragAccepted = Some True, dp_retryCount = 0 \<rparr> \<and>
     ex_rejectionReason (explainability r) = None \<and>
     map step (ex_executionSteps (explainability r)) =
       [str ''tool_search_documents'', str ''tool_evaluate_documents'', str ''generate''] \<and>
     map_option documentsFound (retrievalDetails (explainability r)) =
       Some (DocumentText (str ''Variable''))"
proof -
  have "\<exists>r w'. execute (mockEnvironment (Inr (Some (str ''GENERATE''))) (Inr (Some (str ''no'')))
                      (Inr (Some (str ''answer''))) (Inr \<lparr> results = [], count = None \<rparr>))
              REACT (str ''Explain recursion in computer science'') noOptions [] = (Inr r, w')"
    by (rule execute_react_returns [where ms = "[AIMessage (str ''done'')]"])
       (simp_all add: mockEnvironment_def)
  then obtain r w' where run:
    "execute (mockEnvironment (Inr (Some (str ''GENERATE''))) (Inr (Some (str ''no'')))
                      (Inr (Some (str ''answer''))) (Inr \<lparr> results = [], count = None \<rparr>))
              REACT (str ''Explain recursion in computer science'') noOptions [] = (Inr r, w')"
    by blast
  from react_explainability_fixed [OF run] run show ?thesis
    by (intro exI [of _ r] exI [of _ w']) simp
qed

end
